theory Spec2Isabelle
  imports Complex_Main "HOL-Library.Word" "HOL-Library.Signed_Division" "HOL-Library.Log_Nat"
begin

unbundle bit_operations_syntax

section \<open>Data model\<close>

text \<open>
  Machine types of the Go sources on a 64-bit Windows target: \<open>uint\<close>, \<open>int\<close>,
  \<open>uintptr\<close> and \<open>time.Duration\<close> (an \<open>int64\<close> count of nanoseconds) are 64 bits
  wide, \<open>uint32\<close> is 32 bits wide. \<open>syscall.Handle\<close> and \<open>syscall.Errno\<close> are
  \<open>uintptr\<close>.
\<close>

type_synonym uint = "64 word"
type_synonym uint32 = "32 word"
type_synonym uintptr = "64 word"
type_synonym Duration = "64 word"
type_synonym Handle = "64 word"
type_synonym Errno = "64 word"
type_synonym byte = "8 word"

text \<open>\<open>syscall.InvalidHandle = ^Handle(0)\<close>, the all-ones handle.\<close>

definition InvalidHandle :: Handle where
  "InvalidHandle = NOT 0"

text \<open>\<open>time.Millisecond\<close>: one million nanoseconds.\<close>

definition Millisecond :: Duration where
  "Millisecond = 1000000"

text \<open>
  A Go \<open>error\<close> value is \<open>None\<close> for \<open>nil\<close>. The two package-level errors are
  distinct objects made by \<open>errors.New\<close>; what the operating system reports is a
  \<open>syscall.Errno\<close>.
\<close>

datatype error = ErrNotImplementedOnOS | ErrInvalidOrNilPort | SyscallErrno Errno

text \<open>
  \<open>type serialPort struct { fd syscall.Handle }\<close>. A receiver \<open>p *serialPort\<close> is a
  \<open>serialPort option\<close>, \<open>None\<close> for the nil pointer. No method assigns to \<open>p.fd\<close>.
\<close>

record serialPort =
  fd :: Handle

record Timeouts =
  ReadIntercharacter :: Duration
  ReadTotal :: Duration
  WriteTotal :: Duration

definition DefaultTimeouts :: Timeouts where
  "DefaultTimeouts =
     \<lparr>ReadIntercharacter = Millisecond,
      ReadTotal = Millisecond * 100,
      WriteTotal = Millisecond * 100\<rparr>"

record WindowsCommTimeouts =
  ReadIntervalTimeout :: uint32
  ReadTotalTimeoutMultiplier :: uint32
  ReadTotalTimeoutConstant :: uint32
  WriteTotalTimeoutMultiplier :: uint32
  WriteTotalTimeoutConstant :: uint32

definition defaultWindowsCommTimeouts :: WindowsCommTimeouts where
  "defaultWindowsCommTimeouts =
     \<lparr>ReadIntervalTimeout = 1,
      ReadTotalTimeoutMultiplier = 0,
      ReadTotalTimeoutConstant = 100,
      WriteTotalTimeoutMultiplier = 0,
      WriteTotalTimeoutConstant = 100\<rparr>"

text \<open>
  Modelled from the spec: the declaration of \<open>OpenOptions\<close> is not among the sources.
  The spec gives the two fields that \<open>ctoFromOpenOptions\<close> reads as
  \<open>interCharacterTimeoutMs uint\<close> and \<open>minimumReadSize uint\<close>; the other fields
  (port name, baud rate, parity, ...) are not read by the functions modelled here.
\<close>

record OpenOptions =
  InterCharacterTimeout :: uint
  MinimumReadSize :: uint

section \<open>Floating point\<close>

text \<open>
  A finite \<open>float64\<close> is the rational number it denotes. An arithmetic operation of
  IEEE 754 binary64 is the exact operation followed by rounding to the nearest value with
  a 53-bit significand, ties to the even significand. \<open>ilog2 q\<close> is the binary exponent
  of a positive \<open>q\<close>; below \<open>2\<^sup>-\<^sup>1\<^sup>0\<^sup>2\<^sup>2\<close> the spacing of the subnormal numbers
  is used. Results beyond the largest finite value would be infinite; the operands of this
  program are at most \<open>2\<^sup>6\<^sup>4\<close> and never reach it.
\<close>

type_synonym float64 = rat

definition rne :: "rat \<Rightarrow> int" where
  "rne m =
     (let f = \<lfloor>m\<rfloor>; d = m - of_int f
      in if d < 1 / 2 then f
         else if 1 / 2 < d then f + 1
         else if even f then f else f + 1)"

definition ilog2 :: "rat \<Rightarrow> int" where
  "ilog2 q = (if 1 \<le> q then bitlen \<lfloor>q\<rfloor> - 1 else - bitlen (\<lceil>1 / q\<rceil> - 1))"

definition float64_round :: "rat \<Rightarrow> float64" where
  "float64_round q =
     (if q = 0 then 0
      else let e = max (ilog2 \<bar>q\<bar>) (- 1022);
               ulp = 2 powi (e - 52)
           in sgn q * of_int (rne (\<bar>q\<bar> / ulp)) * ulp)"

text \<open>\<open>float64(x)\<close> for an unsigned integer, \<open>a / b\<close> and \<open>a + b\<close> on \<open>float64\<close>.\<close>

definition float64_of_uint :: "uint \<Rightarrow> float64" where
  "float64_of_uint x = float64_round (of_int (uint x))"

definition float64_div :: "float64 \<Rightarrow> float64 \<Rightarrow> float64" where
  "float64_div a b = float64_round (a / b)"

definition float64_add :: "float64 \<Rightarrow> float64 \<Rightarrow> float64" where
  "float64_add a b = float64_round (a + b)"

text \<open>\<open>math.Floor\<close>: the result is an integer and needs no rounding.\<close>

definition Floor :: "float64 \<Rightarrow> float64" where
  "Floor f = of_int \<lfloor>f\<rfloor>"

text \<open>
  \<open>uint32(f)\<close> for a \<open>float64\<close> discards the fraction. Where the integer does not fit
  \<open>uint32\<close> Go leaves the result to the implementation; the value here is the one of the
  \<open>gc\<close> compiler on amd64, which converts to \<open>int64\<close> (\<open>CVTTSD2SQ\<close>, answering
  \<open>-2\<^sup>6\<^sup>3\<close> out of range) and keeps the low 32 bits.
\<close>

definition uint32_of_float64 :: "float64 \<Rightarrow> uint32" where
  "uint32_of_float64 f =
     (let t = (if 0 \<le> f then \<lfloor>f\<rfloor> else \<lceil>f\<rceil>)
      in if - (2 ^ 63) \<le> t \<and> t < 2 ^ 63 then word_of_int t else 0)"

text \<open>\<open>func round(f float64) float64 { return math.Floor(f + 0.5) }\<close>\<close>

definition round_go :: "float64 \<Rightarrow> float64" where
  "round_go f = Floor (float64_add f (1 / 2))"

section \<open>The legacy translation of the open options\<close>

definition MAXDWORD :: uint32 where
  "MAXDWORD = 2 ^ 32 - 1"

text \<open>The two locals that \<open>ctoFromOpenOptions\<close> computes before it branches.\<close>

definition timeoutConstant :: "OpenOptions \<Rightarrow> uint32" where
  "timeoutConstant options =
     uint32_of_float64
       (round_go (float64_div (float64_of_uint (InterCharacterTimeout options)) 100))"

definition readIntervalTimeout :: "OpenOptions \<Rightarrow> uint32" where
  "readIntervalTimeout options = ucast (MinimumReadSize options)"

text \<open>\<open>var timeouts WindowsCommTimeouts\<close>: every field zero.\<close>

definition zeroWindowsCommTimeouts :: WindowsCommTimeouts where
  "zeroWindowsCommTimeouts =
     \<lparr>ReadIntervalTimeout = 0,
      ReadTotalTimeoutMultiplier = 0,
      ReadTotalTimeoutConstant = 0,
      WriteTotalTimeoutMultiplier = 0,
      WriteTotalTimeoutConstant = 0\<rparr>"

definition ctoFromOpenOptions :: "OpenOptions \<Rightarrow> WindowsCommTimeouts" where
  "ctoFromOpenOptions options =
     (let timeouts = zeroWindowsCommTimeouts in
      if 0 < timeoutConstant options \<and> readIntervalTimeout options = 0 then
        timeouts
          \<lparr>ReadIntervalTimeout := MAXDWORD,
           ReadTotalTimeoutMultiplier := MAXDWORD,
           ReadTotalTimeoutConstant := timeoutConstant options\<rparr>
      else if 0 < readIntervalTimeout options then
        timeouts
          \<lparr>ReadIntervalTimeout := readIntervalTimeout options,
           ReadTotalTimeoutMultiplier := 1,
           ReadTotalTimeoutConstant := 1\<rparr>
      else
        timeouts
          \<lparr>ReadIntervalTimeout := MAXDWORD,
           ReadTotalTimeoutMultiplier := MAXDWORD,
           ReadTotalTimeoutConstant := MAXDWORD - 1\<rparr>)"

text \<open>Which arm of the \<open>if\<close> chain of \<open>ctoFromOpenOptions\<close> runs.\<close>

datatype branch = NonBlocking | BlockForInput | Fallback

definition branch_taken :: "OpenOptions \<Rightarrow> branch" where
  "branch_taken options =
     (if 0 < timeoutConstant options \<and> readIntervalTimeout options = 0 then NonBlocking
      else if 0 < readIntervalTimeout options then BlockForInput
      else Fallback)"

section \<open>The handle provider\<close>

text \<open>
  The operating system is outside the program. It is a parameter of every operation: one
  function per system call, from the arguments and the state of the outside world to the
  call's results and the next state of the world. \<open>SetCommTimeouts\<close> and \<open>PurgeComm\<close>
  are reached through \<open>syscall.SyscallN\<close> and answer with \<open>r1\<close> and an \<open>Errno\<close>;
  \<open>ReadFile\<close> answers with the filled buffer, the count of bytes and an error,
  \<open>WriteFile\<close> with the count of bytes and an error, \<open>CloseHandle\<close> with an error.
\<close>

record 'w kernel32 =
  sysSetCommTimeouts :: "Handle \<Rightarrow> WindowsCommTimeouts \<Rightarrow> 'w \<Rightarrow> (uintptr \<times> Errno) \<times> 'w"
  sysPurgeComm :: "Handle \<Rightarrow> uint32 \<Rightarrow> 'w \<Rightarrow> (uintptr \<times> Errno) \<times> 'w"
  sysReadFile :: "Handle \<Rightarrow> byte list \<Rightarrow> 'w \<Rightarrow> (byte list \<times> uint32 \<times> Errno option) \<times> 'w"
  sysWriteFile :: "Handle \<Rightarrow> byte list \<Rightarrow> 'w \<Rightarrow> (uint32 \<times> Errno option) \<times> 'w"
  sysCloseHandle :: "Handle \<Rightarrow> 'w \<Rightarrow> Errno option \<times> 'w"

text \<open>The calls that reached the operating system, in order, are recorded beside the world.\<close>

datatype oscall =
  CallSetCommTimeouts Handle WindowsCommTimeouts
  | CallPurgeComm Handle uint32
  | CallReadFile Handle "byte list"
  | CallWriteFile Handle "byte list"
  | CallCloseHandle Handle

record 'w machine =
  world :: 'w
  calls :: "oscall list"

definition entered :: "oscall \<Rightarrow> 'w \<Rightarrow> 'w machine \<Rightarrow> 'w machine" where
  "entered c w s = \<lparr>world = w, calls = calls s @ [c]\<rparr>"

text \<open>How a Go \<open>error\<close> is made from an optional \<open>Errno\<close>.\<close>

definition errno_error :: "Errno option \<Rightarrow> error option" where
  "errno_error e = map_option SyscallErrno e"

section \<open>Windows: the system-call wrappers of \<open>open_windows.go\<close>\<close>

definition setCommTimeouts ::
  "'w kernel32 \<Rightarrow> Handle \<Rightarrow> WindowsCommTimeouts \<Rightarrow> 'w machine \<Rightarrow> error option \<times> 'w machine" where
  "setCommTimeouts os h cto s =
     (case sysSetCommTimeouts os h cto (world s) of
        ((r, err), w) \<Rightarrow>
          (if r = 0 then Some (SyscallErrno err) else None,
           entered (CallSetCommTimeouts h cto) w s))"

definition PURGE_RXCLEAR :: uint32 where
  "PURGE_RXCLEAR = 0x0008"

definition PURGE_TXCLEAR :: uint32 where
  "PURGE_TXCLEAR = 0x0004"

definition purgeComm ::
  "'w kernel32 \<Rightarrow> Handle \<Rightarrow> bool \<Rightarrow> bool \<Rightarrow> 'w machine \<Rightarrow> error option \<times> 'w machine" where
  "purgeComm os h clearRx clearTx s =
     (let flags = (0 :: uint32);
          flags = (if clearRx then flags OR PURGE_RXCLEAR else flags);
          flags = (if clearTx then flags OR PURGE_TXCLEAR else flags)
      in case sysPurgeComm os h flags (world s) of
           ((rBool, err), w) \<Rightarrow>
             (if rBool = 0 then Some (SyscallErrno err) else None,
              entered (CallPurgeComm h flags) w s))"

section \<open>Windows: the port operations\<close>

text \<open>
  The guard every guarded operation starts with:
  \<open>p == nil || p.fd == syscall.Handle(0) || p.fd == syscall.InvalidHandle\<close>.
\<close>

definition invalid_port :: "serialPort option \<Rightarrow> bool" where
  "invalid_port p =
     (case p of None \<Rightarrow> True | Some sp \<Rightarrow> fd sp = 0 \<or> fd sp = InvalidHandle)"

text \<open>
  \<open>int64\<close> division truncates towards zero; \<open>uint32(...)\<close> of an integer keeps its low
  32 bits.
\<close>

definition int64_div :: "64 word \<Rightarrow> 64 word \<Rightarrow> 64 word" where
  "int64_div a b = word_of_int (sint a sdiv sint b)"

definition SetTimeouts ::
  "'w kernel32 \<Rightarrow> serialPort option \<Rightarrow> Timeouts \<Rightarrow> 'w machine \<Rightarrow> error option \<times> 'w machine" where
  "SetTimeouts os p timeouts s =
     (if invalid_port p then (Some ErrInvalidOrNilPort, s)
      else
        let cto = defaultWindowsCommTimeouts;
            cto = cto\<lparr>ReadIntervalTimeout :=
                    ucast (int64_div (ReadIntercharacter timeouts) Millisecond)\<rparr>;
            cto = cto\<lparr>ReadTotalTimeoutConstant :=
                    ucast (int64_div (ReadTotal timeouts) Millisecond)\<rparr>;
            cto = cto\<lparr>WriteTotalTimeoutConstant :=
                    ucast (int64_div (WriteTotal timeouts) Millisecond)\<rparr>
        in setCommTimeouts os (fd (the p)) cto s)"

text \<open>
  The driver parameters that \<open>SetTimeouts\<close> builds from a timeouts value before it
  calls \<open>setCommTimeouts\<close>: the default baseline with three fields overwritten.
\<close>

definition driver_params :: "Timeouts \<Rightarrow> WindowsCommTimeouts" where
  "driver_params timeouts =
     defaultWindowsCommTimeouts
       \<lparr>ReadIntervalTimeout := ucast (int64_div (ReadIntercharacter timeouts) Millisecond),
        ReadTotalTimeoutConstant := ucast (int64_div (ReadTotal timeouts) Millisecond),
        WriteTotalTimeoutConstant := ucast (int64_div (WriteTotal timeouts) Millisecond)\<rparr>"

text \<open>
  A duration in whole milliseconds, as the spec words it: the signed count of nanoseconds
  divided by one million, the fraction dropped.
\<close>

definition whole_ms :: "Duration \<Rightarrow> int" where
  "whole_ms d = sint d sdiv 1000000"

definition Close ::
  "'w kernel32 \<Rightarrow> serialPort option \<Rightarrow> 'w machine \<Rightarrow> error option \<times> 'w machine" where
  "Close os p s =
     (if invalid_port p then (Some ErrInvalidOrNilPort, s)
      else
        case sysCloseHandle os (fd (the p)) (world s) of
          (err, w) \<Rightarrow> (errno_error err, entered (CallCloseHandle (fd (the p))) w s))"

text \<open>
  \<open>Write\<close> and \<open>Read\<close> return \<open>int(n)\<close> for the \<open>uint32\<close> count the system call
  stored, and the call's error. \<open>Read\<close> also returns the contents of the buffer, which
  the system call fills in place.
\<close>

definition Write ::
  "'w kernel32 \<Rightarrow> serialPort option \<Rightarrow> byte list \<Rightarrow> 'w machine
     \<Rightarrow> (int \<times> error option) \<times> 'w machine" where
  "Write os p buf s =
     (if invalid_port p then ((0, Some ErrInvalidOrNilPort), s)
      else
        case sysWriteFile os (fd (the p)) buf (world s) of
          ((n, err), w) \<Rightarrow>
            ((uint n, errno_error err), entered (CallWriteFile (fd (the p)) buf) w s))"

definition Read ::
  "'w kernel32 \<Rightarrow> serialPort option \<Rightarrow> byte list \<Rightarrow> 'w machine
     \<Rightarrow> (byte list \<times> int \<times> error option) \<times> 'w machine" where
  "Read os p buf s =
     (if invalid_port p then ((buf, 0, Some ErrInvalidOrNilPort), s)
      else
        case sysReadFile os (fd (the p)) buf (world s) of
          ((buf', done, err), w) \<Rightarrow>
            ((buf', uint done, errno_error err), entered (CallReadFile (fd (the p)) buf) w s))"

text \<open>
  \<open>PurgeBuffers\<close> reads \<open>p.fd\<close> without a guard: on the nil receiver the read is a nil
  pointer dereference and the goroutine panics.
\<close>

datatype 'a outcome = Returns 'a | PanicNilDereference

definition PurgeBuffers ::
  "'w kernel32 \<Rightarrow> serialPort option \<Rightarrow> bool \<Rightarrow> bool \<Rightarrow> 'w machine
     \<Rightarrow> error option outcome \<times> 'w machine" where
  "PurgeBuffers os p clearRx clearTx s =
     (case p of
        None \<Rightarrow> (PanicNilDereference, s)
      | Some sp \<Rightarrow>
          (case purgeComm os (fd sp) clearRx clearTx s of (err, s') \<Rightarrow> (Returns err, s')))"

text \<open>
  \<open>p.SetTimeouts(timeouts); return p.Read(buf)\<close>: the error of \<open>SetTimeouts\<close> is not
  bound to anything.
\<close>

definition ReadWithTimeouts ::
  "'w kernel32 \<Rightarrow> serialPort option \<Rightarrow> byte list \<Rightarrow> Timeouts \<Rightarrow> 'w machine
     \<Rightarrow> (byte list \<times> int \<times> error option) \<times> 'w machine" where
  "ReadWithTimeouts os p buf timeouts s =
     (case SetTimeouts os p timeouts s of (_, s') \<Rightarrow> Read os p buf s')"

definition WriteWithTimeouts ::
  "'w kernel32 \<Rightarrow> serialPort option \<Rightarrow> byte list \<Rightarrow> Timeouts \<Rightarrow> 'w machine
     \<Rightarrow> (int \<times> error option) \<times> 'w machine" where
  "WriteWithTimeouts os p buf timeouts s =
     (case SetTimeouts os p timeouts s of (_, s') \<Rightarrow> Write os p buf s')"

section \<open>Other platforms\<close>

text \<open>
  \<open>timeouts_other.go\<close> and the \<open>PurgeBuffers\<close> built with \<open>!windows\<close>: both return
  \<open>nil\<close> without reading the receiver or their arguments. The state of the machine is
  passed through, whatever its type.
\<close>

definition SetTimeouts_other :: "'p option \<Rightarrow> Timeouts \<Rightarrow> 's \<Rightarrow> error option \<times> 's" where
  "SetTimeouts_other p timeouts s = (None, s)"

definition PurgeBuffers_other :: "'p option \<Rightarrow> bool \<Rightarrow> bool \<Rightarrow> 's \<Rightarrow> error option \<times> 's" where
  "PurgeBuffers_other p clearRx clearTx s = (None, s)"

section \<open>The \<open>Port\<close> wrapper\<close>

text \<open>
  \<open>type Port struct { *serialPort }\<close>: the struct that \<open>Open\<close> hands out, by pointer,
  and \<open>nil\<close> when opening failed. The struct behind \<open>serialPort\<close> differs between
  platforms and is a parameter. A \<open>*Port\<close> is a \<open>Port option\<close>.
\<close>

record 'sp Port =
  serialPort :: "'sp option"

text \<open>
  The methods of \<open>*serialPort\<close> are promoted to \<open>*Port\<close>: \<open>port.M(...)\<close> is
  \<open>(*port).serialPort.M(...)\<close>. Selecting the embedded field of a nil \<open>*Port\<close> is a nil
  pointer dereference and panics before the method is entered; otherwise the method runs
  with the embedded pointer, nil or not, as its receiver.
\<close>

definition promoted :: "('sp option \<Rightarrow> 's \<Rightarrow> 'a \<times> 's) \<Rightarrow> 'sp Port option \<Rightarrow> 's \<Rightarrow> 'a outcome \<times> 's" where
  "promoted method port s =
     (case port of
        None \<Rightarrow> (PanicNilDereference, s)
      | Some pt \<Rightarrow> (case method (serialPort pt) s of (r, s') \<Rightarrow> (Returns r, s')))"

definition Port_SetTimeouts ::
  "'w kernel32 \<Rightarrow> serialPort Port option \<Rightarrow> Timeouts \<Rightarrow> 'w machine
     \<Rightarrow> error option outcome \<times> 'w machine" where
  "Port_SetTimeouts os port timeouts = promoted (\<lambda>p. SetTimeouts os p timeouts) port"

definition Port_Close ::
  "'w kernel32 \<Rightarrow> serialPort Port option \<Rightarrow> 'w machine \<Rightarrow> error option outcome \<times> 'w machine" where
  "Port_Close os port = promoted (Close os) port"

definition Port_SetTimeouts_other ::
  "'sp Port option \<Rightarrow> Timeouts \<Rightarrow> 's \<Rightarrow> error option outcome \<times> 's" where
  "Port_SetTimeouts_other port timeouts = promoted (\<lambda>p. SetTimeouts_other p timeouts) port"

definition Port_PurgeBuffers_other ::
  "'sp Port option \<Rightarrow> bool \<Rightarrow> bool \<Rightarrow> 's \<Rightarrow> error option outcome \<times> 's" where
  "Port_PurgeBuffers_other port clearRx clearTx =
     promoted (\<lambda>p. PurgeBuffers_other p clearRx clearTx) port"

section \<open>A simulated operating system\<close>

text \<open>
  For running the operations on concrete inputs. The world is the table of open handles,
  each marked as a communications device or not. A call on a handle that is not open
  fails with \<open>ERROR_INVALID_HANDLE\<close> (6); the two communications calls fail with
  \<open>ERROR_INVALID_FUNCTION\<close> (1) on an open handle that is no communications device. A
  read finds no data and times out with zero bytes; a write takes every byte.
\<close>

type_synonym simworld = "Handle \<rightharpoonup> bool"

definition sim_comm :: "Handle \<Rightarrow> simworld \<Rightarrow> (uintptr \<times> Errno) \<times> simworld" where
  "sim_comm h w =
     ((case w h of None \<Rightarrow> (0, 6) | Some False \<Rightarrow> (0, 1) | Some True \<Rightarrow> (1, 0)), w)"

definition sim_os :: "simworld kernel32" where
  "sim_os =
     \<lparr>sysSetCommTimeouts = (\<lambda>h cto w. sim_comm h w),
      sysPurgeComm = (\<lambda>h flags w. sim_comm h w),
      sysReadFile = (\<lambda>h buf w.
        (case w h of None \<Rightarrow> (buf, 0, Some 6) | Some _ \<Rightarrow> (buf, 0, None), w)),
      sysWriteFile = (\<lambda>h buf w.
        (case w h of None \<Rightarrow> (0, Some 6) | Some _ \<Rightarrow> (word_of_nat (length buf), None), w)),
      sysCloseHandle = (\<lambda>h w.
        (case w h of None \<Rightarrow> (Some 6, w) | Some _ \<Rightarrow> (None, w(h := None))))\<rparr>"

text \<open>A machine in which handle 5 is an open serial port and handle 7 an open file.\<close>

definition sim_start :: "simworld machine" where
  "sim_start = \<lparr>world = [5 \<mapsto> True, 7 \<mapsto> False], calls = []\<rparr>"

section \<open>Rounding to \<open>float64\<close>\<close>

text \<open>
  Two facts about rounding carry everything below: a number with a significand below
  \<open>2\<^sup>5\<^sup>3\<close> is its own rounding, and rounding moves a number of the normal range by at
  most the fraction \<open>2\<^sup>-\<^sup>5\<^sup>3\<close> of itself.
\<close>

lemma rne_error: "\<bar>of_int (rne m) - m\<bar> \<le> 1 / 2"
proof -
  have "of_int \<lfloor>m\<rfloor> \<le> m" "m < of_int \<lfloor>m\<rfloor> + 1" by linarith+
  then show ?thesis
    unfolding rne_def Let_def by (auto simp: abs_le_iff)
qed

lemma rne_of_int: "rne (of_int k) = k"
  by (simp add: rne_def)

lemma bitlen_ge1: "0 < x \<Longrightarrow> 1 \<le> bitlen x"
  using bitlen_eq_zero_iff [of x] bitlen_nonneg [of x] by linarith

lemma ilog2_ge1:
  fixes q :: rat
  assumes "1 \<le> q"
  shows "2 powi ilog2 q \<le> q" and "q < 2 powi (ilog2 q + 1)"
proof -
  from assms have pos: "0 < \<lfloor>q\<rfloor>" by simp
  have b1: "1 \<le> bitlen \<lfloor>q\<rfloor>" using pos by (rule bitlen_ge1)
  from bitlen_bounds [OF pos]
  have lo: "2 ^ nat (bitlen \<lfloor>q\<rfloor> - 1) \<le> \<lfloor>q\<rfloor>" and hi: "\<lfloor>q\<rfloor> < 2 ^ nat (bitlen \<lfloor>q\<rfloor>)"
    by simp_all
  from lo have "(of_int (2 ^ nat (bitlen \<lfloor>q\<rfloor> - 1)) :: rat) \<le> of_int \<lfloor>q\<rfloor>"
    by (simp only: of_int_le_iff)
  also have "\<dots> \<le> q" by simp
  finally have "(2 :: rat) ^ nat (bitlen \<lfloor>q\<rfloor> - 1) \<le> q" by simp
  then show "2 powi ilog2 q \<le> q"
    using assms b1 by (simp add: ilog2_def power_int_def)
  from hi have "\<lfloor>q\<rfloor> + 1 \<le> 2 ^ nat (bitlen \<lfloor>q\<rfloor>)" by simp
  then have "(of_int (\<lfloor>q\<rfloor> + 1) :: rat) \<le> of_int (2 ^ nat (bitlen \<lfloor>q\<rfloor>))"
    by (simp only: of_int_le_iff)
  moreover have "q < of_int (\<lfloor>q\<rfloor> + 1)" by linarith
  ultimately have "q < (2 :: rat) ^ nat (bitlen \<lfloor>q\<rfloor>)" by simp
  then show "q < 2 powi (ilog2 q + 1)"
    using assms b1 by (simp add: ilog2_def power_int_def)
qed

lemma ilog2_lt1:
  fixes q :: rat
  assumes "0 < q" and "q < 1"
  shows "2 powi ilog2 q \<le> q" and "q < 2 powi (ilog2 q + 1)"
proof -
  define c where "c = \<lceil>1 / q\<rceil>"
  define b where "b = bitlen (c - 1)"
  have t1: "1 < 1 / q" using assms by simp
  then have c2: "2 \<le> c" unfolding c_def by linarith
  then have pos: "0 < c - 1" by simp
  have b1: "1 \<le> b" unfolding b_def using pos by (rule bitlen_ge1)
  from bitlen_bounds [OF pos]
  have lo: "2 ^ nat (b - 1) \<le> c - 1" and hi: "c - 1 < 2 ^ nat b"
    by (simp_all add: b_def)
  have e: "ilog2 q = - b" using assms by (simp add: ilog2_def b_def c_def)
  have tc: "1 / q \<le> of_int c" "of_int c - 1 < 1 / q" unfolding c_def by linarith+
  from hi have "c \<le> 2 ^ nat b" by simp
  then have "(of_int c :: rat) \<le> of_int (2 ^ nat b)" by (simp only: of_int_le_iff)
  then have "(of_int c :: rat) \<le> 2 ^ nat b" by simp
  with tc have "1 / q \<le> 2 ^ nat b" by linarith
  then have "1 \<le> 2 ^ nat b * q" using assms by (simp add: field_simps)
  then have "1 / 2 ^ nat b \<le> q" by (simp add: field_simps)
  then show "2 powi ilog2 q \<le> q"
    using b1 by (simp add: e power_int_def field_simps)
  from lo have "(of_int (2 ^ nat (b - 1)) :: rat) \<le> of_int (c - 1)" by (simp only: of_int_le_iff)
  then have "(2 :: rat) ^ nat (b - 1) \<le> of_int c - 1" by simp
  with tc have "2 ^ nat (b - 1) < 1 / q" by linarith
  then have "2 ^ nat (b - 1) * q < 1" using assms by (simp add: field_simps)
  then have lt: "q < 1 / 2 ^ nat (b - 1)" by (simp add: field_simps)
  show "q < 2 powi (ilog2 q + 1)"
  proof (cases "b = 1")
    case True
    with lt show ?thesis by (simp add: e)
  next
    case False
    with b1 have "\<not> 0 \<le> 1 - b" "nat (- (1 - b)) = nat (b - 1)" by simp_all
    with lt show ?thesis by (simp add: e power_int_def field_simps)
  qed
qed

lemma ilog2_bounds:
  fixes q :: rat
  assumes "0 < q"
  shows "2 powi ilog2 q \<le> q" and "q < 2 powi (ilog2 q + 1)"
  using assms ilog2_ge1 [of q] ilog2_lt1 [of q] by (cases "1 \<le> q"; simp)+

lemma two_powi_less_imp:
  assumes "(2 :: rat) powi a < 2 powi b"
  shows "a < b"
proof (rule ccontr)
  assume "\<not> a < b"
  then have "b \<le> a" by simp
  then have "(2 :: rat) powi b \<le> 2 powi a" by (rule power_int_increasing) simp
  with assms show False by simp
qed

lemma float64_round_exact:
  assumes n: "0 < n" "n < 2 ^ 53" and j: "- 1074 \<le> j"
  shows "float64_round (of_int n * 2 powi j) = of_int n * 2 powi j"
proof -
  define q :: rat where "q = of_int n * 2 powi j"
  define e where "e = max (ilog2 q) (- 1022)"
  have qpos: "0 < q" using n by (simp add: q_def)
  have "(of_int n :: rat) < of_int (2 ^ 53)" using n by (simp only: of_int_less_iff)
  then have "(of_int n :: rat) < 2 powi 53" by simp
  then have "q < 2 powi 53 * 2 powi j" by (simp add: q_def)
  also have "\<dots> = 2 powi (53 + j)" by (simp add: power_int_add)
  finally have "2 powi ilog2 q < (2 :: rat) powi (53 + j)"
    using ilog2_bounds(1) [OF qpos] by simp
  then have "ilog2 q < 53 + j" by (rule two_powi_less_imp)
  with j have ej: "0 \<le> j - (e - 52)" by (simp add: e_def)
  have h: "(of_int (n * 2 ^ nat (j - (e - 52))) :: rat) = of_int n * 2 powi (j - (e - 52))"
    using ej by (simp add: power_int_nonneg_exp)
  have "q / 2 powi (e - 52) = of_int n * 2 powi (j - (e - 52))"
    by (simp add: q_def power_int_diff)
  also have "\<dots> = of_int (n * 2 ^ nat (j - (e - 52)))"
    by (simp only: h)
  finally have "rne (q / 2 powi (e - 52)) = n * 2 ^ nat (j - (e - 52))"
    by (simp only: rne_of_int)
  then have "(of_int (rne (q / 2 powi (e - 52))) :: rat) * 2 powi (e - 52)
      = of_int n * 2 powi (j - (e - 52)) * 2 powi (e - 52)"
    by (simp only: h)
  also have "\<dots> = of_int n * (2 powi (j - (e - 52)) * 2 powi (e - 52))"
    by (simp only: mult.assoc)
  also have "\<dots> = q" by (simp add: q_def flip: power_int_add)
  finally show ?thesis
    using qpos by (simp add: float64_round_def Let_def flip: q_def e_def)
qed

lemma float64_round_error:
  assumes "2 powi (- 1022) \<le> q"
  shows "\<bar>float64_round q - q\<bar> \<le> q / 2 ^ 53"
proof -
  have "(0 :: rat) < 2 powi (- 1022)" by simp
  with assms have qpos: "0 < q" by linarith
  have "(2 :: rat) powi (- 1022) < 2 powi (ilog2 q + 1)"
    using assms ilog2_bounds(2) [OF qpos] by linarith
  then have "- 1022 < ilog2 q + 1" by (rule two_powi_less_imp)
  then have e: "max (ilog2 q) (- 1022) = ilog2 q" by simp
  define u :: rat where "u = 2 powi (ilog2 q - 52)"
  have upos: "0 < u" by (simp add: u_def)
  have fr: "float64_round q = of_int (rne (q / u)) * u"
    using qpos by (simp add: float64_round_def Let_def e u_def)
  have "float64_round q - q = (of_int (rne (q / u)) - q / u) * u"
    using upos by (simp add: fr field_simps)
  then have "\<bar>float64_round q - q\<bar> = \<bar>of_int (rne (q / u)) - q / u\<bar> * u"
    using upos by (simp add: abs_mult)
  also have "\<dots> \<le> 1 / 2 * u"
    using rne_error [of "q / u"] upos by (intro mult_right_mono) simp_all
  also have "\<dots> = 2 powi ilog2 q / 2 ^ 53"
    by (simp add: u_def power_int_diff)
  also have "\<dots> \<le> q / 2 ^ 53"
    using ilog2_bounds(1) [OF qpos] by (simp add: divide_right_mono)
  finally show ?thesis .
qed

lemma float64_round_nat:
  assumes "n < 2 ^ 53"
  shows "float64_round (of_nat n) = of_nat n"
proof (cases "n = 0")
  case True
  then show ?thesis by (simp add: float64_round_def)
next
  case False
  then have "0 < int n" by simp
  moreover have "int n < int (2 ^ 53)" using assms by (simp only: of_nat_less_iff)
  then have "int n < 2 ^ 53" by simp
  ultimately show ?thesis
    using float64_round_exact [of "int n" 0] by simp
qed

lemma float64_round_half: "float64_round (1 / 2) = 1 / 2"
  using float64_round_exact [of 1 "- 1"] by simp

lemma tiny_le: "(2 :: rat) powi (- 1022) \<le> 1 / 128"
proof -
  have "(2 :: rat) powi (- 1022) \<le> 2 powi (- 7)"
    by (rule power_int_increasing) simp_all
  then show ?thesis by simp
qed

lemma round_go_div_100:
  assumes n: "n < 2 ^ 39"
  shows "round_go (float64_div (of_nat n) 100) = of_nat ((n + 50) div 100)"
proof -
  define k where "k = (n + 50) div 100"
  define r where "r = (n + 50) mod 100"
  define y :: rat where "y = of_nat n / 100"
  have nkr: "n + 50 = 100 * k + r" by (simp add: k_def r_def)
  have r99: "r \<le> 99" unfolding r_def by (simp add: le_simps)
  have "(of_nat (n + 50) :: rat) = of_nat (100 * k + r)" by (simp only: nkr)
  then have yk: "y = of_nat k + of_nat r / 100 - 1 / 2" by (simp add: y_def)
  have goal: "\<lfloor>float64_round (float64_round y + 1 / 2)\<rfloor> = int k"
  proof (cases "n = 0")
    case True
    then have "y = 0" "k = 0" by (simp_all add: y_def k_def)
    then show ?thesis by (simp add: float64_round_def [of 0] float64_round_half floor_eq_iff)
  next
    case npos: False
    show ?thesis
    proof (cases "r = 0")
      case True
      with nkr npos have kpos: "0 < k" by (cases k) simp_all
      have "(of_nat n :: rat) < of_nat (2 ^ 39)" using n by (simp only: of_nat_less_iff)
      then have ylt: "y < 2 ^ 39 / 100" by (simp add: y_def)
      with yk True have klt: "(of_nat k :: rat) < 2 ^ 39" by simp
      then have "(of_nat k :: rat) < of_nat (2 ^ 39)" by simp
      then have k39: "k < 2 ^ 39" by (simp only: of_nat_less_iff)
      have y2: "y = of_int (2 * int k - 1) * 2 powi (- 1)" using yk True by simp
      have "float64_round y = y"
        unfolding y2 using kpos k39 by (intro float64_round_exact) simp_all
      moreover have "y + 1 / 2 = of_nat k" using yk True by simp
      moreover have "float64_round (of_nat k) = of_nat k"
        using k39 by (intro float64_round_nat) simp
      ultimately show ?thesis by simp
    next
      case False
      then have r1: "1 \<le> r" by simp
      have r1': "(1 :: rat) \<le> of_nat r" using r1 by simp
      have "(of_nat r :: rat) \<le> of_nat 99" using r99 by (simp only: of_nat_le_iff)
      then have r99': "(of_nat r :: rat) \<le> 99" by simp
      have "(of_nat n :: rat) < of_nat (2 ^ 39)" using n by (simp only: of_nat_less_iff)
      then have ylt: "y < 2 ^ 39 / 100" by (simp add: y_def)
      have "(1 :: rat) \<le> of_nat n" using npos by simp
      then have yge: "1 / 100 \<le> y" by (simp add: y_def)
      with tiny_le have "2 powi (- 1022) \<le> y" by linarith
      then have "\<bar>float64_round y - y\<bar> \<le> y / 2 ^ 53" by (rule float64_round_error)
      with ylt have "\<bar>float64_round y - y\<bar> < 2 ^ 39 / 100 / 2 ^ 53"
        by (simp add: divide_strict_right_mono)
      then have "\<bar>float64_round y - y\<bar> < 1 / 1638400" by simp
      then have d1: "- (1 / 16384) < float64_round y - y" "float64_round y - y < 1 / 16384"
        by linarith+
      define w where "w = float64_round y + 1 / 2"
      define rr :: rat where "rr = of_nat r / 100"
      have rr: "1 / 100 \<le> rr" "rr \<le> 99 / 100" using r1' r99' by (simp_all add: rr_def)
      have yk': "y = of_nat k + rr - 1 / 2" using yk by (simp add: rr_def)
      have kge: "(0 :: rat) \<le> of_nat k" by simp
      have wlo: "of_nat k + 1 / 100 - 1 / 16384 < w"
        and whi: "w < of_nat k + 99 / 100 + 1 / 16384"
        using d1 yk' rr unfolding w_def by linarith+
      have "y < 5497558138.88" using ylt by simp
      then have w39: "w < 2 ^ 39" using d1 unfolding w_def by simp
      have "1 / 128 \<le> w" using wlo kge by linarith
      with tiny_le have "2 powi (- 1022) \<le> w" by linarith
      then have "\<bar>float64_round w - w\<bar> \<le> w / 2 ^ 53" by (rule float64_round_error)
      with w39 have "\<bar>float64_round w - w\<bar> < 2 ^ 39 / 2 ^ 53"
        by (simp add: divide_strict_right_mono)
      then have "\<bar>float64_round w - w\<bar> < 1 / 16384" by simp
      then have d2: "- (1 / 16384) < float64_round w - w" "float64_round w - w < 1 / 16384"
        by linarith+
      have "of_nat k \<le> float64_round w" "float64_round w < of_nat k + 1"
        using d2 wlo whi by linarith+
      then have "\<lfloor>float64_round w\<rfloor> = int k" by (simp add: floor_unique)
      then show ?thesis by (simp add: w_def)
    qed
  qed
  show ?thesis
    using goal by (simp add: round_go_def Floor_def float64_add_def float64_div_def
        flip: y_def k_def)
qed


lemma timeoutConstant_round:
  assumes "unat (InterCharacterTimeout options) < 429496729550"
  shows "timeoutConstant options = word_of_nat ((unat (InterCharacterTimeout options) + 50) div 100)"
    and "unat (timeoutConstant options) = (unat (InterCharacterTimeout options) + 50) div 100"
proof -
  define n where "n = unat (InterCharacterTimeout options)"
  have n39: "n < 2 ^ 39" using assms by (simp add: n_def)
  then have n53: "n < 2 ^ 53" by simp
  have k: "(n + 50) div 100 < 2 ^ 32" using assms by (simp add: n_def)
  have "round_go (float64_div (float64_of_uint (InterCharacterTimeout options)) 100)
      = of_nat ((n + 50) div 100)"
    using round_go_div_100 [OF n39] float64_round_nat [OF n53]
    by (simp add: float64_of_uint_def n_def)
  then have tc: "timeoutConstant options = word_of_nat ((n + 50) div 100)"
    using k by (simp add: timeoutConstant_def uint32_of_float64_def Let_def word_of_int_nat)
  then show "timeoutConstant options = word_of_nat ((unat (InterCharacterTimeout options) + 50) div 100)"
    by (simp add: n_def)
  show "unat (timeoutConstant options) = (unat (InterCharacterTimeout options) + 50) div 100"
    using k by (simp add: tc unat_of_nat flip: n_def)
qed

section \<open>The locals of the legacy translation\<close>

text \<open>
  Below \<open>2\<^sup>3\<^sup>9\<close> milliseconds the \<open>float64\<close> computation of \<open>timeoutConstant\<close> gives
  the integer \<open>(ms + 50) div 100\<close>, which is the exact quotient rounded half up, and
  \<open>uint32\<close> keeps its low 32 bits.
\<close>

lemma timeoutConstant_wrap:
  assumes "unat (InterCharacterTimeout options) < 2 ^ 39"
  shows "timeoutConstant options = word_of_nat ((unat (InterCharacterTimeout options) + 50) div 100)"
proof -
  define n where "n = unat (InterCharacterTimeout options)"
  have n39: "n < 2 ^ 39" using assms by (simp add: n_def)
  then have n53: "n < 2 ^ 53" by simp
  have k: "(n + 50) div 100 < 2 ^ 63" using n39 by simp
  have "round_go (float64_div (float64_of_uint (InterCharacterTimeout options)) 100)
      = of_nat ((n + 50) div 100)"
    using round_go_div_100 [OF n39] float64_round_nat [OF n53]
    by (simp add: float64_of_uint_def n_def)
  then show ?thesis
    using k by (simp add: timeoutConstant_def uint32_of_float64_def Let_def word_of_int_nat
        flip: n_def)
qed

lemma unat_ucast_32: "unat (ucast x :: uint32) = unat x mod 2 ^ 32" for x :: uint
  unfolding unsigned_ucast_eq take_bit_eq_mod by simp

lemma round_half_up_div:
  "\<lfloor>(of_nat n :: rat) / 100 + 1 / 2\<rfloor> = int ((n + 50) div 100)"
proof -
  have "(of_nat n :: rat) / 100 + 1 / 2 = of_nat (n + 50) / of_nat 100" by simp
  then show ?thesis by (simp only: floor_divide_of_nat_eq)
qed

lemma cto_by_branch:
  "ctoFromOpenOptions options =
     (case branch_taken options of
        NonBlocking \<Rightarrow>
          \<lparr>ReadIntervalTimeout = MAXDWORD, ReadTotalTimeoutMultiplier = MAXDWORD,
           ReadTotalTimeoutConstant = timeoutConstant options,
           WriteTotalTimeoutMultiplier = 0, WriteTotalTimeoutConstant = 0\<rparr>
      | BlockForInput \<Rightarrow>
          \<lparr>ReadIntervalTimeout = readIntervalTimeout options, ReadTotalTimeoutMultiplier = 1,
           ReadTotalTimeoutConstant = 1,
           WriteTotalTimeoutMultiplier = 0, WriteTotalTimeoutConstant = 0\<rparr>
      | Fallback \<Rightarrow>
          \<lparr>ReadIntervalTimeout = MAXDWORD, ReadTotalTimeoutMultiplier = MAXDWORD,
           ReadTotalTimeoutConstant = MAXDWORD - 1,
           WriteTotalTimeoutMultiplier = 0, WriteTotalTimeoutConstant = 0\<rparr>)"
  by (simp add: ctoFromOpenOptions_def branch_taken_def zeroWindowsCommTimeouts_def Let_def)

lemma timeoutConstant_pos_iff:
  assumes "unat (InterCharacterTimeout options) < 429496729550"
  shows "0 < timeoutConstant options \<longleftrightarrow> 50 \<le> unat (InterCharacterTimeout options)"
proof -
  have "unat (timeoutConstant options) = (unat (InterCharacterTimeout options) + 50) div 100"
    using assms by (rule timeoutConstant_round(2))
  moreover have "0 < timeoutConstant options \<longleftrightarrow> 0 < unat (timeoutConstant options)"
    by (simp add: unat_gt_0 word_neq_0_conv)
  ultimately show ?thesis by (simp add: div_greater_zero_iff)
qed

lemma branch_small_timeout:
  assumes "unat (InterCharacterTimeout options) < 50"
  shows "branch_taken options = (if readIntervalTimeout options = 0 then Fallback else BlockForInput)"
proof -
  have "unat (InterCharacterTimeout options) < 429496729550" using assms by simp
  then have "\<not> 0 < timeoutConstant options"
    using assms by (simp add: timeoutConstant_pos_iff)
  then show ?thesis by (simp add: branch_taken_def word_neq_0_conv)
qed

lemma readIntervalTimeout_zero_iff:
  "readIntervalTimeout options = 0 \<longleftrightarrow> unat (MinimumReadSize options) mod 2 ^ 32 = 0"
  unfolding readIntervalTimeout_def unat_0_iff [symmetric] unat_ucast_32 ..

lemma branch_Fallback_iff:
  assumes "unat (InterCharacterTimeout options) < 429496729550"
  shows "branch_taken options = Fallback \<longleftrightarrow>
           unat (InterCharacterTimeout options) < 50
           \<and> unat (MinimumReadSize options) mod 2 ^ 32 = 0"
  using timeoutConstant_pos_iff [OF assms] readIntervalTimeout_zero_iff [of options]
  by (auto simp add: branch_taken_def word_neq_0_conv)

section \<open>The port operations, call by call\<close>

text \<open>
  What each guarded operation does on a port the guard rejects and on a port it lets
  through, and which calls it adds to the record.
\<close>

lemma invalid_port_simps:
  "invalid_port None"
  "invalid_port (Some \<lparr>fd = h\<rparr>) \<longleftrightarrow> h = 0 \<or> h = InvalidHandle"
  by (simp_all add: invalid_port_def)

lemma InvalidHandle_value: "InvalidHandle = 18446744073709551615"
  by (simp add: InvalidHandle_def)

lemma SetTimeouts_invalid:
  "invalid_port p \<Longrightarrow> SetTimeouts os p timeouts s = (Some ErrInvalidOrNilPort, s)"
  by (simp add: SetTimeouts_def)

lemma SetTimeouts_valid:
  "\<not> invalid_port p \<Longrightarrow>
     SetTimeouts os p timeouts s = setCommTimeouts os (fd (the p)) (driver_params timeouts) s"
  by (simp add: SetTimeouts_def driver_params_def Let_def)

lemma setCommTimeouts_calls:
  "calls (snd (setCommTimeouts os h cto s)) = calls s @ [CallSetCommTimeouts h cto]"
  by (simp add: setCommTimeouts_def entered_def split: prod.splits)

lemma setCommTimeouts_world:
  "world (snd (setCommTimeouts os h cto s)) = snd (sysSetCommTimeouts os h cto (world s))"
  by (simp add: setCommTimeouts_def entered_def split: prod.splits)

lemma setCommTimeouts_error:
  "fst (setCommTimeouts os h cto s) =
     (if fst (fst (sysSetCommTimeouts os h cto (world s))) = 0
      then Some (SyscallErrno (snd (fst (sysSetCommTimeouts os h cto (world s))))) else None)"
  by (simp add: setCommTimeouts_def split: prod.splits)

lemma SetTimeouts_syscall_failed:
  assumes "\<not> invalid_port p"
    and "sysSetCommTimeouts os (fd (the p)) (driver_params t) (world s) = ((0, e), w)"
  shows "SetTimeouts os p t s =
    (Some (SyscallErrno e),
     \<lparr>world = w, calls = calls s @ [CallSetCommTimeouts (fd (the p)) (driver_params t)]\<rparr>)"
  using assms by (simp add: SetTimeouts_valid setCommTimeouts_def entered_def)

lemma guarded_operations_reject:
  assumes "invalid_port p"
  shows "SetTimeouts os p timeouts s = (Some ErrInvalidOrNilPort, s)"
    and "Read os p buf s = ((buf, 0, Some ErrInvalidOrNilPort), s)"
    and "Write os p buf s = ((0, Some ErrInvalidOrNilPort), s)"
    and "Close os p s = (Some ErrInvalidOrNilPort, s)"
  using assms by (simp_all add: SetTimeouts_def Read_def Write_def Close_def)

lemma Read_valid:
  "\<not> invalid_port p \<Longrightarrow>
     Read os p buf s =
       (case sysReadFile os (fd (the p)) buf (world s) of
          ((buf', done, err), w) \<Rightarrow>
            ((buf', uint done, errno_error err),
             \<lparr>world = w, calls = calls s @ [CallReadFile (fd (the p)) buf]\<rparr>))"
  by (simp add: Read_def entered_def split: prod.splits)

lemma Write_valid:
  "\<not> invalid_port p \<Longrightarrow>
     Write os p buf s =
       (case sysWriteFile os (fd (the p)) buf (world s) of
          ((n, err), w) \<Rightarrow>
            ((uint n, errno_error err),
             \<lparr>world = w, calls = calls s @ [CallWriteFile (fd (the p)) buf]\<rparr>))"
  by (simp add: Write_def entered_def split: prod.splits)

lemma Close_valid:
  "\<not> invalid_port p \<Longrightarrow>
     Close os p s =
       (errno_error (fst (sysCloseHandle os (fd (the p)) (world s))),
        \<lparr>world = snd (sysCloseHandle os (fd (the p)) (world s)),
         calls = calls s @ [CallCloseHandle (fd (the p))]\<rparr>)"
  by (simp add: Close_def entered_def split: prod.splits)

lemma Read_calls:
  "calls (snd (Read os p buf s)) =
     calls s @ (if invalid_port p then [] else [CallReadFile (fd (the p)) buf])"
  by (simp add: Read_def entered_def split: prod.splits)

lemma Write_calls:
  "calls (snd (Write os p buf s)) =
     calls s @ (if invalid_port p then [] else [CallWriteFile (fd (the p)) buf])"
  by (simp add: Write_def entered_def split: prod.splits)

lemma SetTimeouts_calls:
  "calls (snd (SetTimeouts os p timeouts s)) =
     calls s @
       (if invalid_port p then []
        else [CallSetCommTimeouts (fd (the p)) (driver_params timeouts)])"
  by (simp add: SetTimeouts_invalid SetTimeouts_valid setCommTimeouts_calls)

lemma Close_calls:
  "calls (snd (Close os p s)) =
     calls s @ (if invalid_port p then [] else [CallCloseHandle (fd (the p))])"
  by (simp add: Close_def entered_def split: prod.splits)

lemma sint_Millisecond: "sint Millisecond = 1000000"
  by (simp add: Millisecond_def)

lemma uint_ucast_int64_div:
  "uint (ucast (int64_div d Millisecond) :: uint32) = whole_ms d mod 2 ^ 32"
proof -
  have "uint (ucast (int64_div d Millisecond) :: uint32)
      = take_bit 32 (uint (word_of_int (sint d sdiv 1000000) :: 64 word))"
    by (simp add: int64_div_def sint_Millisecond unsigned_ucast_eq)
  also have "\<dots> = take_bit 32 (take_bit 64 (sint d sdiv 1000000))"
    by (simp add: uint_word_of_int_eq)
  also have "\<dots> = take_bit 32 (sint d sdiv 1000000)"
    by simp
  finally show ?thesis by (simp add: whole_ms_def take_bit_eq_mod)
qed

lemma promoted_nil: "promoted method None s = (PanicNilDereference, s)"
  by (simp add: promoted_def)

lemma promoted_Some:
  "promoted method (Some pt) s = (Returns (fst (method (serialPort pt) s)), snd (method (serialPort pt) s))"
  by (simp add: promoted_def case_prod_beta)

lemma SetTimeouts_receiver:
  "(fst (SetTimeouts os p t s) = Some ErrInvalidOrNilPort \<longleftrightarrow> invalid_port p)
   \<and> (invalid_port p \<longleftrightarrow> p = None \<or> fd (the p) = 0 \<or> fd (the p) = InvalidHandle)
   \<and> (invalid_port p \<longrightarrow> SetTimeouts os p t s = (Some ErrInvalidOrNilPort, s))
   \<and> (\<not> invalid_port p \<longrightarrow>
        SetTimeouts os p t s =
          setCommTimeouts os (fd (the p))
            (\<lparr>ReadIntervalTimeout = 1, ReadTotalTimeoutMultiplier = 0,
              ReadTotalTimeoutConstant = 100,
              WriteTotalTimeoutMultiplier = 0, WriteTotalTimeoutConstant = 100\<rparr>
               \<lparr>ReadIntervalTimeout := ucast (int64_div (ReadIntercharacter t) Millisecond),
                ReadTotalTimeoutConstant := ucast (int64_div (ReadTotal t) Millisecond),
                WriteTotalTimeoutConstant := ucast (int64_div (WriteTotal t) Millisecond)\<rparr>) s
        \<and> calls (snd (SetTimeouts os p t s)) =
            calls s @ [CallSetCommTimeouts (fd (the p)) (driver_params t)]
        \<and> world (snd (SetTimeouts os p t s)) =
            snd (sysSetCommTimeouts os (fd (the p)) (driver_params t) (world s)))"
proof -
  have a: "fst (SetTimeouts os p t s) = Some ErrInvalidOrNilPort \<longleftrightarrow> invalid_port p"
    by (cases "invalid_port p")
      (simp_all add: SetTimeouts_invalid SetTimeouts_valid setCommTimeouts_error)
  have b: "invalid_port p \<longleftrightarrow> p = None \<or> fd (the p) = 0 \<or> fd (the p) = InvalidHandle"
    by (cases p) (simp_all add: invalid_port_def)
  have c: "invalid_port p \<longrightarrow> SetTimeouts os p t s = (Some ErrInvalidOrNilPort, s)"
    by (simp add: SetTimeouts_invalid)
  have d: "\<not> invalid_port p \<longrightarrow>
        SetTimeouts os p t s =
          setCommTimeouts os (fd (the p))
            (\<lparr>ReadIntervalTimeout = 1, ReadTotalTimeoutMultiplier = 0,
              ReadTotalTimeoutConstant = 100,
              WriteTotalTimeoutMultiplier = 0, WriteTotalTimeoutConstant = 100\<rparr>
               \<lparr>ReadIntervalTimeout := ucast (int64_div (ReadIntercharacter t) Millisecond),
                ReadTotalTimeoutConstant := ucast (int64_div (ReadTotal t) Millisecond),
                WriteTotalTimeoutConstant := ucast (int64_div (WriteTotal t) Millisecond)\<rparr>) s
        \<and> calls (snd (SetTimeouts os p t s)) =
            calls s @ [CallSetCommTimeouts (fd (the p)) (driver_params t)]
        \<and> world (snd (SetTimeouts os p t s)) =
            snd (sysSetCommTimeouts os (fd (the p)) (driver_params t) (world s))"
    by (simp add: SetTimeouts_calls)
      (simp add: SetTimeouts_valid setCommTimeouts_world driver_params_def
        defaultWindowsCommTimeouts_def)
  from a b c d show ?thesis by blast
qed

section \<open>The claims\<close>

text \<open>
  Claim C1, as amended. For every pair of options with \<open>MinimumReadSize = 0\<close> and
  \<open>50 \<le> InterCharacterTimeout < 429496729550\<close>, \<open>ctoFromOpenOptions\<close> takes its first
  branch and returns \<open>ReadIntervalTimeout = ReadTotalTimeoutMultiplier = MAXDWORD\<close> and
  \<open>ReadTotalTimeoutConstant\<close> the quotient \<open>InterCharacterTimeout / 100\<close> rounded half
  up, a value between 1 and \<open>2\<^sup>3\<^sup>2 - 1\<close>. The options \<open>(100, 0)\<close> give the constant 1.
  The first branch is guarded by the rounded constant being positive, not by the timeout
  being positive.
\<close>

theorem legacy_nonblocking_branch:
  assumes "50 \<le> unat (InterCharacterTimeout options)"
    and "unat (InterCharacterTimeout options) < 429496729550"
    and "MinimumReadSize options = 0"
  shows "branch_taken options = NonBlocking
    \<and> ctoFromOpenOptions options =
        \<lparr>ReadIntervalTimeout = MAXDWORD, ReadTotalTimeoutMultiplier = MAXDWORD,
         ReadTotalTimeoutConstant =
           word_of_int \<lfloor>of_nat (unat (InterCharacterTimeout options)) / (100 :: rat) + 1 / 2\<rfloor>,
         WriteTotalTimeoutMultiplier = 0, WriteTotalTimeoutConstant = 0\<rparr>
    \<and> 0 < \<lfloor>of_nat (unat (InterCharacterTimeout options)) / (100 :: rat) + 1 / 2\<rfloor>
    \<and> \<lfloor>of_nat (unat (InterCharacterTimeout options)) / (100 :: rat) + 1 / 2\<rfloor> < 2 ^ 32"
proof -
  define n where "n = unat (InterCharacterTimeout options)"
  have n: "50 \<le> n" "n < 429496729550" using assms by (simp_all add: n_def)
  have pos: "0 < timeoutConstant options"
    using assms(1,2) by (simp add: timeoutConstant_pos_iff)
  have ri: "readIntervalTimeout options = 0"
    using assms(3) by (simp add: readIntervalTimeout_def)
  have br: "branch_taken options = NonBlocking"
    using pos ri by (simp add: branch_taken_def)
  have tc: "timeoutConstant options = word_of_int \<lfloor>(of_nat n :: rat) / 100 + 1 / 2\<rfloor>"
    using timeoutConstant_round(1) [OF assms(2)]
    by (simp only: round_half_up_div n_def word_of_int_nat of_int_of_nat_eq)
  have k: "0 < (n + 50) div 100" "(n + 50) div 100 < 2 ^ 32"
    using n by (simp_all add: div_greater_zero_iff)
  from k(2) have "int ((n + 50) div 100) < int (2 ^ 32)" by (simp only: of_nat_less_iff)
  then have k2: "int ((n + 50) div 100) < 2 ^ 32" by simp
  show ?thesis
    using br tc k(1) k2 by (simp add: cto_by_branch round_half_up_div flip: n_def)
qed

theorem legacy_nonblocking_branch_witness:
  "(50 :: nat) \<le> unat (100 :: uint) \<and> unat (100 :: uint) < 429496729550
   \<and> branch_taken \<lparr>InterCharacterTimeout = 100, MinimumReadSize = 0\<rparr> = NonBlocking
   \<and> ctoFromOpenOptions \<lparr>InterCharacterTimeout = 100, MinimumReadSize = 0\<rparr> =
       \<lparr>ReadIntervalTimeout = MAXDWORD, ReadTotalTimeoutMultiplier = MAXDWORD,
        ReadTotalTimeoutConstant = 1,
        WriteTotalTimeoutMultiplier = 0, WriteTotalTimeoutConstant = 0\<rparr>"
proof -
  have "\<lfloor>(3 :: rat) / 2\<rfloor> = 1" by (simp add: floor_eq_iff)
  then show ?thesis
    using legacy_nonblocking_branch [of "\<lparr>InterCharacterTimeout = 100, MinimumReadSize = 0\<rparr>"]
    by simp
qed

text \<open>
  C1 as stated fails below 50 milliseconds, where the quotient rounds to 0 and the third
  branch runs, and at 429496729550 milliseconds, where the rounded quotient is \<open>2\<^sup>3\<^sup>2\<close>
  and no \<open>uint32\<close> holds it.
\<close>

theorem legacy_nonblocking_counterexample:
  "(0 :: uint) < 10
   \<and> branch_taken \<lparr>InterCharacterTimeout = 10, MinimumReadSize = 0\<rparr> = Fallback
   \<and> ctoFromOpenOptions \<lparr>InterCharacterTimeout = 10, MinimumReadSize = 0\<rparr> =
       \<lparr>ReadIntervalTimeout = MAXDWORD, ReadTotalTimeoutMultiplier = MAXDWORD,
        ReadTotalTimeoutConstant = MAXDWORD - 1,
        WriteTotalTimeoutMultiplier = 0, WriteTotalTimeoutConstant = 0\<rparr>
   \<and> \<lfloor>(10 :: rat) / 100 + 1 / 2\<rfloor> = 0
   \<and> MAXDWORD - 1 \<noteq> 0
   \<and> branch_taken \<lparr>InterCharacterTimeout = 429496729550, MinimumReadSize = 0\<rparr> = Fallback
   \<and> \<lfloor>(429496729550 :: rat) / 100 + 1 / 2\<rfloor> = 2 ^ 32"
proof -
  have "branch_taken \<lparr>InterCharacterTimeout = 10, MinimumReadSize = 0\<rparr> = Fallback"
    by (simp add: branch_small_timeout readIntervalTimeout_def)
  moreover have "\<lfloor>(10 :: rat) / 100 + 1 / 2\<rfloor> = 0" by (simp add: floor_eq_iff)
  moreover have "timeoutConstant \<lparr>InterCharacterTimeout = 429496729550, MinimumReadSize = 0\<rparr> = 0"
    by (simp add: timeoutConstant_wrap)
  then have "branch_taken \<lparr>InterCharacterTimeout = 429496729550, MinimumReadSize = 0\<rparr> = Fallback"
    by (simp add: branch_taken_def readIntervalTimeout_def)
  moreover have "\<lfloor>(429496729550 :: rat) / 100 + 1 / 2\<rfloor> = 2 ^ 32" by (simp add: floor_eq_iff)
  ultimately show ?thesis by (simp add: cto_by_branch MAXDWORD_def)
qed

text \<open>
  Claim C7, as amended. The options \<open>(0, 0)\<close> give the fallback \<open>ReadIntervalTimeout =
  ReadTotalTimeoutMultiplier = MAXDWORD\<close>, \<open>ReadTotalTimeoutConstant = MAXDWORD - 1\<close>.
  The fallback branch runs exactly when the rounded constant and the minimum read size
  cut to 32 bits are both zero: for a timeout below 429496729550 milliseconds, exactly
  when the timeout is below 50 and the low 32 bits of the minimum read size are zero.
  For a timeout below 429496729350 milliseconds these are also exactly the options for
  which the fallback values are returned (from there up to 429496729449 the first branch
  returns the same three values, its rounded constant being \<open>MAXDWORD - 1\<close>).
\<close>

theorem legacy_fallback_branch:
  "ctoFromOpenOptions \<lparr>InterCharacterTimeout = 0, MinimumReadSize = 0\<rparr> =
     \<lparr>ReadIntervalTimeout = MAXDWORD, ReadTotalTimeoutMultiplier = MAXDWORD,
      ReadTotalTimeoutConstant = MAXDWORD - 1,
      WriteTotalTimeoutMultiplier = 0, WriteTotalTimeoutConstant = 0\<rparr>
   \<and> (unat (InterCharacterTimeout options) < 50
        \<and> unat (MinimumReadSize options) mod 2 ^ 32 = 0 \<longrightarrow>
        ctoFromOpenOptions options =
          \<lparr>ReadIntervalTimeout = MAXDWORD, ReadTotalTimeoutMultiplier = MAXDWORD,
           ReadTotalTimeoutConstant = MAXDWORD - 1,
           WriteTotalTimeoutMultiplier = 0, WriteTotalTimeoutConstant = 0\<rparr>)
   \<and> (unat (InterCharacterTimeout options) < 429496729550 \<longrightarrow>
        (branch_taken options = Fallback \<longleftrightarrow>
           unat (InterCharacterTimeout options) < 50
           \<and> unat (MinimumReadSize options) mod 2 ^ 32 = 0))
   \<and> (unat (InterCharacterTimeout options) < 429496729350 \<longrightarrow>
        (ctoFromOpenOptions options =
           \<lparr>ReadIntervalTimeout = MAXDWORD, ReadTotalTimeoutMultiplier = MAXDWORD,
            ReadTotalTimeoutConstant = MAXDWORD - 1,
            WriteTotalTimeoutMultiplier = 0, WriteTotalTimeoutConstant = 0\<rparr>
         \<longleftrightarrow> unat (InterCharacterTimeout options) < 50
             \<and> unat (MinimumReadSize options) mod 2 ^ 32 = 0))"
proof -
  let ?n = "unat (InterCharacterTimeout options)"
  let ?low = "unat (MinimumReadSize options) mod 2 ^ 32"
  let ?FB = "\<lparr>ReadIntervalTimeout = MAXDWORD, ReadTotalTimeoutMultiplier = MAXDWORD,
      ReadTotalTimeoutConstant = MAXDWORD - 1,
      WriteTotalTimeoutMultiplier = 0, WriteTotalTimeoutConstant = 0\<rparr>"
  have b0: "branch_taken \<lparr>InterCharacterTimeout = 0, MinimumReadSize = 0\<rparr> = Fallback"
    by (simp add: branch_small_timeout readIntervalTimeout_def)
  have c0: "ctoFromOpenOptions \<lparr>InterCharacterTimeout = 0, MinimumReadSize = 0\<rparr> = ?FB"
    by (simp add: cto_by_branch b0)
  have fwd: "ctoFromOpenOptions options = ?FB" if "?n < 50" "?low = 0"
  proof -
    have "?n < 429496729550" using that(1) by simp
    then have "branch_taken options = Fallback"
      using that by (simp add: branch_Fallback_iff)
    then show ?thesis by (simp add: cto_by_branch)
  qed
  have bwd: "?n < 50 \<and> ?low = 0"
    if n: "?n < 429496729350" and eq: "ctoFromOpenOptions options = ?FB"
  proof -
    have n': "?n < 429496729550" using n by simp
    have tc: "unat (timeoutConstant options) = (?n + 50) div 100"
      using n' by (rule timeoutConstant_round(2))
    have "(?n + 50) div 100 < 4294967294" using n by simp
    then have ne: "timeoutConstant options \<noteq> MAXDWORD - 1"
      using tc by (auto simp add: MAXDWORD_def)
    have m: "(1 :: uint32) \<noteq> MAXDWORD" by (simp add: MAXDWORD_def)
    have "branch_taken options = Fallback"
    proof (cases "branch_taken options")
      case NonBlocking
      with eq ne show ?thesis by (simp add: cto_by_branch)
    next
      case BlockForInput
      with eq m show ?thesis by (simp add: cto_by_branch)
    next
      case Fallback
      then show ?thesis .
    qed
    then show ?thesis using n' by (simp add: branch_Fallback_iff)
  qed
  have c2: "?n < 50 \<and> ?low = 0 \<longrightarrow> ctoFromOpenOptions options = ?FB"
  proof (intro impI, elim conjE)
    assume "?n < 50" "?low = 0"
    then show "ctoFromOpenOptions options = ?FB" by (rule fwd)
  qed
  have c3: "?n < 429496729550 \<longrightarrow> (branch_taken options = Fallback \<longleftrightarrow> ?n < 50 \<and> ?low = 0)"
  proof (intro impI)
    assume "?n < 429496729550"
    then show "branch_taken options = Fallback \<longleftrightarrow> ?n < 50 \<and> ?low = 0"
      by (rule branch_Fallback_iff)
  qed
  have c4: "?n < 429496729350 \<longrightarrow> (ctoFromOpenOptions options = ?FB \<longleftrightarrow> ?n < 50 \<and> ?low = 0)"
  proof (intro impI iffI)
    assume "?n < 429496729350" "ctoFromOpenOptions options = ?FB"
    then show "?n < 50 \<and> ?low = 0" by (rule bwd)
  next
    assume a: "?n < 50 \<and> ?low = 0"
    from c2 a show "ctoFromOpenOptions options = ?FB" by (rule mp)
  qed
  show ?thesis by (rule conjI [OF c0 conjI [OF c2 conjI [OF c3 c4]]])
qed

theorem legacy_fallback_branch_witness:
  "unat (20 :: uint) < 50 \<and> unat (0 :: uint) mod 2 ^ 32 = 0
   \<and> branch_taken \<lparr>InterCharacterTimeout = 20, MinimumReadSize = 0\<rparr> = Fallback
   \<and> ctoFromOpenOptions \<lparr>InterCharacterTimeout = 20, MinimumReadSize = 0\<rparr> =
       \<lparr>ReadIntervalTimeout = 4294967295, ReadTotalTimeoutMultiplier = 4294967295,
        ReadTotalTimeoutConstant = 4294967294,
        WriteTotalTimeoutMultiplier = 0, WriteTotalTimeoutConstant = 0\<rparr>
   \<and> ctoFromOpenOptions \<lparr>InterCharacterTimeout = 0, MinimumReadSize = 0\<rparr> =
       \<lparr>ReadIntervalTimeout = 4294967295, ReadTotalTimeoutMultiplier = 4294967295,
        ReadTotalTimeoutConstant = 4294967294,
        WriteTotalTimeoutMultiplier = 0, WriteTotalTimeoutConstant = 0\<rparr>"
  using legacy_fallback_branch [of "\<lparr>InterCharacterTimeout = 20, MinimumReadSize = 0\<rparr>"]
  by (simp add: MAXDWORD_def)

text \<open>
  C7 as stated, with the branches as the spec conditions them (first: timeout positive
  and minimum read size zero; second: minimum read size positive), fails: with
  \<open>(49, 0)\<close> the first condition holds and with \<open>(0, 8589934592)\<close> the second, and both
  get the fallback.
\<close>

theorem legacy_fallback_counterexample:
  "(0 :: uint) < 49
   \<and> ctoFromOpenOptions \<lparr>InterCharacterTimeout = 49, MinimumReadSize = 0\<rparr> =
       \<lparr>ReadIntervalTimeout = 4294967295, ReadTotalTimeoutMultiplier = 4294967295,
        ReadTotalTimeoutConstant = 4294967294,
        WriteTotalTimeoutMultiplier = 0, WriteTotalTimeoutConstant = 0\<rparr>
   \<and> (0 :: uint) < 8589934592
   \<and> ctoFromOpenOptions \<lparr>InterCharacterTimeout = 0, MinimumReadSize = 8589934592\<rparr> =
       \<lparr>ReadIntervalTimeout = 4294967295, ReadTotalTimeoutMultiplier = 4294967295,
        ReadTotalTimeoutConstant = 4294967294,
        WriteTotalTimeoutMultiplier = 0, WriteTotalTimeoutConstant = 0\<rparr>"
proof -
  have "branch_taken \<lparr>InterCharacterTimeout = 49, MinimumReadSize = 0\<rparr> = Fallback"
    by (simp add: branch_small_timeout readIntervalTimeout_def)
  moreover
  have "branch_taken \<lparr>InterCharacterTimeout = 0, MinimumReadSize = 8589934592\<rparr> = Fallback"
    by (simp add: branch_small_timeout readIntervalTimeout_def)
  ultimately show ?thesis by (simp add: cto_by_branch MAXDWORD_def)
qed

text \<open>
  Claim C8, as amended. For every pair of options whose minimum read size has nonzero low
  32 bits (every size from 1 to \<open>2\<^sup>3\<^sup>2 - 1\<close> among them), whatever the timeout,
  \<open>ctoFromOpenOptions\<close> takes its second branch and returns \<open>ReadIntervalTimeout\<close>
  the minimum read size cut to 32 bits, \<open>ReadTotalTimeoutMultiplier = 1\<close> and
  \<open>ReadTotalTimeoutConstant = 1\<close>. The options \<open>(0, 4)\<close> give \<open>(4, 1, 1)\<close>.
\<close>

theorem legacy_block_for_input_branch:
  assumes "unat (MinimumReadSize options) mod 2 ^ 32 \<noteq> 0"
  shows "branch_taken options = BlockForInput
    \<and> ctoFromOpenOptions options =
        \<lparr>ReadIntervalTimeout = ucast (MinimumReadSize options), ReadTotalTimeoutMultiplier = 1,
         ReadTotalTimeoutConstant = 1,
         WriteTotalTimeoutMultiplier = 0, WriteTotalTimeoutConstant = 0\<rparr>
    \<and> unat (ReadIntervalTimeout (ctoFromOpenOptions options))
        = unat (MinimumReadSize options) mod 2 ^ 32"
proof -
  have u: "unat (readIntervalTimeout options) = unat (MinimumReadSize options) mod 2 ^ 32"
    unfolding readIntervalTimeout_def unat_ucast_32 ..
  with assms have "readIntervalTimeout options \<noteq> 0" by (auto simp flip: unat_0_iff)
  then have "branch_taken options = BlockForInput"
    by (simp add: branch_taken_def word_neq_0_conv)
  then show ?thesis
    using u by (simp add: cto_by_branch readIntervalTimeout_def)
qed

theorem legacy_block_for_input_branch_witness:
  "unat (4 :: uint) mod 2 ^ 32 \<noteq> 0
   \<and> ctoFromOpenOptions \<lparr>InterCharacterTimeout = 0, MinimumReadSize = 4\<rparr> =
       \<lparr>ReadIntervalTimeout = 4, ReadTotalTimeoutMultiplier = 1,
        ReadTotalTimeoutConstant = 1,
        WriteTotalTimeoutMultiplier = 0, WriteTotalTimeoutConstant = 0\<rparr>"
  using legacy_block_for_input_branch [of "\<lparr>InterCharacterTimeout = 0, MinimumReadSize = 4\<rparr>"]
  by simp

text \<open>
  C8 as stated fails for a minimum read size that is a positive multiple of \<open>2\<^sup>3\<^sup>2\<close>:
  \<open>uint32(options.MinimumReadSize)\<close> is then 0 and the second branch does not run.
\<close>

theorem legacy_block_for_input_counterexample:
  "(0 :: uint) < 4294967296
   \<and> branch_taken \<lparr>InterCharacterTimeout = 0, MinimumReadSize = 4294967296\<rparr> = Fallback
   \<and> ctoFromOpenOptions \<lparr>InterCharacterTimeout = 0, MinimumReadSize = 4294967296\<rparr> =
       \<lparr>ReadIntervalTimeout = 4294967295, ReadTotalTimeoutMultiplier = 4294967295,
        ReadTotalTimeoutConstant = 4294967294,
        WriteTotalTimeoutMultiplier = 0, WriteTotalTimeoutConstant = 0\<rparr>"
proof -
  have "branch_taken \<lparr>InterCharacterTimeout = 0, MinimumReadSize = 4294967296\<rparr> = Fallback"
    by (simp add: branch_small_timeout readIntervalTimeout_def)
  then show ?thesis by (simp add: cto_by_branch MAXDWORD_def)
qed

text \<open>
  Claim C9, as amended. On platforms other than Windows, \<open>SetTimeouts\<close> returns
  \<open>nil\<close> for every timeouts value and \<open>PurgeBuffers\<close> returns \<open>nil\<close> for every pair
  of flags, on every receiver \<open>*serialPort\<close>, the nil one included, and so on every
  \<open>*Port\<close> that is not nil, whatever its embedded pointer; both leave the machine as it
  was, so no call reaches the operating system. On a nil \<open>*Port\<close> both panic with a nil
  pointer dereference, again without any call.
\<close>

theorem other_platform_noops:
  "SetTimeouts_other p timeouts s = (None, s)
   \<and> PurgeBuffers_other p clearRx clearTx s = (None, s)
   \<and> Port_SetTimeouts_other (Some pt) timeouts s = (Returns None, s)
   \<and> Port_PurgeBuffers_other (Some pt) clearRx clearTx s = (Returns None, s)
   \<and> Port_SetTimeouts_other (Some \<lparr>serialPort = None\<rparr>) timeouts s = (Returns None, s)
   \<and> Port_PurgeBuffers_other (Some \<lparr>serialPort = None\<rparr>) clearRx clearTx s = (Returns None, s)
   \<and> Port_SetTimeouts_other None timeouts s = (PanicNilDereference, s)
   \<and> Port_PurgeBuffers_other None clearRx clearTx s = (PanicNilDereference, s)"
  by (simp add: Port_SetTimeouts_other_def Port_PurgeBuffers_other_def promoted_nil promoted_Some
      SetTimeouts_other_def PurgeBuffers_other_def)

text \<open>
  C9 as stated fails on the nil \<open>*Port\<close>: neither method returns there.
\<close>

theorem other_platform_nil_Port_counterexample:
  "Port_SetTimeouts_other (None :: unit Port option) DefaultTimeouts ()
     = (PanicNilDereference, ())
   \<and> fst (Port_SetTimeouts_other (None :: unit Port option) DefaultTimeouts ()) \<noteq> Returns None
   \<and> Port_PurgeBuffers_other (None :: unit Port option) True True ()
     = (PanicNilDereference, ())
   \<and> fst (Port_PurgeBuffers_other (None :: unit Port option) True True ()) \<noteq> Returns None"
  by (simp add: Port_SetTimeouts_other_def Port_PurgeBuffers_other_def promoted_nil)

text \<open>
  Claim C2. Every port operation invoked on a nil port or on a port whose handle is zero
  or invalid is to return the local invalid-port error before any call reaches the
  operating system, and none is to crash on a nil receiver. \<open>SetTimeouts\<close>, \<open>Read\<close>,
  \<open>Write\<close> and \<open>Close\<close> do so (\<open>guarded_operations_reject\<close>). \<open>PurgeBuffers\<close> does
  not: on the nil receiver it panics, and with handle 0 or with the invalid handle it
  calls \<open>PurgeComm\<close> with that handle and both flags (\<open>0x000C\<close>); on the simulated
  system the caller gets the system's \<open>ERROR_INVALID_HANDLE\<close>.
\<close>

theorem PurgeBuffers_unguarded:
  "PurgeBuffers os None clearRx clearTx s = (PanicNilDereference, s)
   \<and> invalid_port (Some \<lparr>fd = 0\<rparr>)
   \<and> calls (snd (PurgeBuffers os (Some \<lparr>fd = 0\<rparr>) True True s))
       = calls s @ [CallPurgeComm 0 12]
   \<and> invalid_port (Some \<lparr>fd = InvalidHandle\<rparr>)
   \<and> calls (snd (PurgeBuffers os (Some \<lparr>fd = InvalidHandle\<rparr>) True True s))
       = calls s @ [CallPurgeComm InvalidHandle 12]
   \<and> PurgeBuffers sim_os (Some \<lparr>fd = 0\<rparr>) True True sim_start
       = (Returns (Some (SyscallErrno 6)),
          \<lparr>world = world sim_start, calls = [CallPurgeComm 0 12]\<rparr>)"
  by (simp add: PurgeBuffers_def purgeComm_def entered_def PURGE_RXCLEAR_def PURGE_TXCLEAR_def
      invalid_port_simps sim_os_def sim_comm_def sim_start_def case_prod_beta)

text \<open>
  Claim C3, as amended. The driver parameters that \<open>SetTimeouts\<close> builds depend on the
  timeouts value alone and are defined for every value. Both multipliers are 0.
  \<open>ReadIntervalTimeout\<close>, \<open>ReadTotalTimeoutConstant\<close> and
  \<open>WriteTotalTimeoutConstant\<close> are the low 32 bits of \<open>ReadIntercharacter\<close>,
  \<open>ReadTotal\<close> and \<open>WriteTotal\<close> in whole milliseconds; they are these millisecond
  counts themselves whenever the count is from 0 to \<open>2\<^sup>3\<^sup>2 - 1\<close>. On a port that passes
  the guard these parameters are what the one \<open>SetCommTimeouts\<close> call receives.
\<close>

theorem SetTimeouts_translation:
  "ReadTotalTimeoutMultiplier (driver_params t) = 0
   \<and> WriteTotalTimeoutMultiplier (driver_params t) = 0
   \<and> uint (ReadIntervalTimeout (driver_params t)) = whole_ms (ReadIntercharacter t) mod 2 ^ 32
   \<and> uint (ReadTotalTimeoutConstant (driver_params t)) = whole_ms (ReadTotal t) mod 2 ^ 32
   \<and> uint (WriteTotalTimeoutConstant (driver_params t)) = whole_ms (WriteTotal t) mod 2 ^ 32
   \<and> (0 \<le> whole_ms (ReadIntercharacter t) \<and> whole_ms (ReadIntercharacter t) < 2 ^ 32 \<longrightarrow>
        uint (ReadIntervalTimeout (driver_params t)) = whole_ms (ReadIntercharacter t))
   \<and> (0 \<le> whole_ms (ReadTotal t) \<and> whole_ms (ReadTotal t) < 2 ^ 32 \<longrightarrow>
        uint (ReadTotalTimeoutConstant (driver_params t)) = whole_ms (ReadTotal t))
   \<and> (0 \<le> whole_ms (WriteTotal t) \<and> whole_ms (WriteTotal t) < 2 ^ 32 \<longrightarrow>
        uint (WriteTotalTimeoutConstant (driver_params t)) = whole_ms (WriteTotal t))
   \<and> (\<not> invalid_port p \<longrightarrow>
        calls (snd (SetTimeouts os p t s)) =
          calls s @ [CallSetCommTimeouts (fd (the p)) (driver_params t)])"
  by (simp add: driver_params_def defaultWindowsCommTimeouts_def uint_ucast_int64_div
      SetTimeouts_calls)

theorem SetTimeouts_translation_witness:
  "driver_params DefaultTimeouts = defaultWindowsCommTimeouts
   \<and> whole_ms (ReadIntercharacter DefaultTimeouts) = 1
   \<and> whole_ms (ReadTotal DefaultTimeouts) = 100
   \<and> whole_ms (WriteTotal DefaultTimeouts) = 100
   \<and> uint (ReadIntervalTimeout (driver_params DefaultTimeouts)) = 1
   \<and> uint (ReadTotalTimeoutConstant (driver_params DefaultTimeouts)) = 100
   \<and> uint (WriteTotalTimeoutConstant (driver_params DefaultTimeouts)) = 100
   \<and> calls (snd (SetTimeouts sim_os (Some \<lparr>fd = 5\<rparr>) DefaultTimeouts sim_start)) =
       [CallSetCommTimeouts 5 defaultWindowsCommTimeouts]"
proof -
  have ms: "whole_ms (ReadIntercharacter DefaultTimeouts) = 1"
    "whole_ms (ReadTotal DefaultTimeouts) = 100"
    "whole_ms (WriteTotal DefaultTimeouts) = 100"
    by (simp_all add: whole_ms_def DefaultTimeouts_def Millisecond_def signed_divide_int_def)
  have dp: "driver_params DefaultTimeouts = defaultWindowsCommTimeouts"
    by (simp add: driver_params_def defaultWindowsCommTimeouts_def DefaultTimeouts_def
        int64_div_def Millisecond_def signed_divide_int_def)
  have v: "\<not> invalid_port (Some \<lparr>fd = 5\<rparr>)"
    by (simp add: invalid_port_simps InvalidHandle_value)
  show ?thesis
    using SetTimeouts_translation [of DefaultTimeouts "Some \<lparr>fd = 5\<rparr>" sim_os sim_start] v
    by (simp add: ms dp sim_start_def)
qed

text \<open>
  C3 as stated fails for a duration of \<open>2\<^sup>3\<^sup>2\<close> milliseconds (about 49.7 days) or
  more: with \<open>ReadTotal\<close> of 4294967296 ms the driver receives
  \<open>ReadTotalTimeoutConstant = 0\<close>.
\<close>

theorem SetTimeouts_translation_counterexample:
  "whole_ms (ReadTotal \<lparr>ReadIntercharacter = 0, ReadTotal = 4294967296000000, WriteTotal = 0\<rparr>)
     = 4294967296
   \<and> ReadTotalTimeoutConstant
       (driver_params \<lparr>ReadIntercharacter = 0, ReadTotal = 4294967296000000, WriteTotal = 0\<rparr>)
     = 0
   \<and> calls (snd (SetTimeouts sim_os (Some \<lparr>fd = 5\<rparr>)
       \<lparr>ReadIntercharacter = 0, ReadTotal = 4294967296000000, WriteTotal = 0\<rparr> sim_start)) =
       [CallSetCommTimeouts 5
         \<lparr>ReadIntervalTimeout = 0, ReadTotalTimeoutMultiplier = 0,
          ReadTotalTimeoutConstant = 0,
          WriteTotalTimeoutMultiplier = 0, WriteTotalTimeoutConstant = 0\<rparr>]"
proof -
  have v: "\<not> invalid_port (Some \<lparr>fd = 5\<rparr>)"
    by (simp add: invalid_port_simps InvalidHandle_value)
  have dp: "driver_params \<lparr>ReadIntercharacter = 0, ReadTotal = 4294967296000000, WriteTotal = 0\<rparr>
      = \<lparr>ReadIntervalTimeout = 0, ReadTotalTimeoutMultiplier = 0,
          ReadTotalTimeoutConstant = 0,
          WriteTotalTimeoutMultiplier = 0, WriteTotalTimeoutConstant = 0\<rparr>"
    by (simp add: driver_params_def defaultWindowsCommTimeouts_def
        int64_div_def Millisecond_def signed_divide_int_def)
  show ?thesis
    using v by (simp add: dp SetTimeouts_calls sim_start_def whole_ms_def signed_divide_int_def)
qed

text \<open>
  Claim C4. For every port, buffer, timeouts value and machine state,
  \<open>ReadWithTimeouts\<close> is \<open>SetTimeouts\<close> followed by one \<open>Read\<close> into the buffer, in
  the state \<open>SetTimeouts\<close> left, and returns what that \<open>Read\<close> returns;
  \<open>WriteWithTimeouts\<close> is \<open>SetTimeouts\<close> followed by one \<open>Write\<close> of the buffer and
  returns what that \<open>Write\<close> returns. The calls added to the record are exactly
  \<open>SetCommTimeouts\<close> then \<open>ReadFile\<close> (or \<open>WriteFile\<close>) on a port that passes the
  guard, and none on a port that does not.
\<close>

theorem with_timeouts_sequence:
  "ReadWithTimeouts os p buf timeouts s = Read os p buf (snd (SetTimeouts os p timeouts s))
   \<and> WriteWithTimeouts os p buf timeouts s = Write os p buf (snd (SetTimeouts os p timeouts s))
   \<and> calls (snd (ReadWithTimeouts os p buf timeouts s)) =
       calls s @
         (if invalid_port p then []
          else [CallSetCommTimeouts (fd (the p)) (driver_params timeouts),
                CallReadFile (fd (the p)) buf])
   \<and> calls (snd (WriteWithTimeouts os p buf timeouts s)) =
       calls s @
         (if invalid_port p then []
          else [CallSetCommTimeouts (fd (the p)) (driver_params timeouts),
                CallWriteFile (fd (the p)) buf])"
  by (simp add: ReadWithTimeouts_def WriteWithTimeouts_def case_prod_beta Read_calls
      Write_calls SetTimeouts_calls)

theorem with_timeouts_sequence_run:
  "ReadWithTimeouts sim_os (Some \<lparr>fd = 5\<rparr>) [0, 0] DefaultTimeouts sim_start =
     (([0, 0], 0, None),
      \<lparr>world = world sim_start,
       calls = [CallSetCommTimeouts 5 (driver_params DefaultTimeouts), CallReadFile 5 [0, 0]]\<rparr>)
   \<and> WriteWithTimeouts sim_os (Some \<lparr>fd = 5\<rparr>) [1, 2, 3] DefaultTimeouts sim_start =
     ((3, None),
      \<lparr>world = world sim_start,
       calls = [CallSetCommTimeouts 5 (driver_params DefaultTimeouts),
                CallWriteFile 5 [1, 2, 3]]\<rparr>)
   \<and> ReadWithTimeouts sim_os None [0, 0] DefaultTimeouts sim_start =
     (([0, 0], 0, Some ErrInvalidOrNilPort), sim_start)"
proof -
  have v: "\<not> invalid_port (Some \<lparr>fd = 5\<rparr>)" "invalid_port None"
    by (simp_all add: invalid_port_simps InvalidHandle_value)
  have st: "SetTimeouts sim_os (Some \<lparr>fd = 5\<rparr>) DefaultTimeouts sim_start =
      (None, \<lparr>world = world sim_start,
              calls = [CallSetCommTimeouts 5 (driver_params DefaultTimeouts)]\<rparr>)"
    using v(1)
    by (simp add: SetTimeouts_valid setCommTimeouts_def entered_def sim_os_def sim_comm_def
        sim_start_def)
  have r: "sysReadFile sim_os 5 buf (world sim_start) = ((buf, 0, None), world sim_start)" for buf
    by (simp add: sim_os_def sim_start_def)
  have wr: "sysWriteFile sim_os 5 buf (world sim_start)
      = ((word_of_nat (length buf), None), world sim_start)" for buf
    by (simp add: sim_os_def sim_start_def)
  show ?thesis
    using with_timeouts_sequence [of sim_os "Some \<lparr>fd = 5\<rparr>" "[0, 0]" DefaultTimeouts sim_start]
      with_timeouts_sequence [of sim_os "Some \<lparr>fd = 5\<rparr>" "[1, 2, 3]" DefaultTimeouts sim_start]
      with_timeouts_sequence [of sim_os None "[0, 0]" DefaultTimeouts sim_start] v
    by (simp add: st r wr Read_valid Write_valid guarded_operations_reject errno_error_def)
qed

text \<open>
  Claim C5, as amended. On a \<open>*Port\<close> that is not nil, \<open>SetTimeouts\<close> returns the
  invalid-port error exactly when the embedded \<open>*serialPort\<close> is nil or its handle is
  zero or invalid, and then nothing else happens. Otherwise it takes the default baseline
  (\<open>ReadIntervalTimeout = 1\<close>, \<open>ReadTotalTimeoutConstant = 100\<close>,
  \<open>WriteTotalTimeoutConstant = 100\<close>, both multipliers 0), overwrites the three
  fields from the timeouts value, and hands the result to the driver in one
  \<open>SetCommTimeouts\<close> call, whose outcome it returns. On a nil \<open>*Port\<close> the call panics
  with a nil pointer dereference before the guard is reached, and no call is made.
\<close>

theorem SetTimeouts_contract:
  "Port_SetTimeouts os None t s = (PanicNilDereference, s)
   \<and> Port_SetTimeouts os (Some pt) t s =
       (Returns (fst (SetTimeouts os (serialPort pt) t s)),
        snd (SetTimeouts os (serialPort pt) t s))
   \<and> (fst (Port_SetTimeouts os (Some pt) t s) = Returns (Some ErrInvalidOrNilPort)
        \<longleftrightarrow> invalid_port (serialPort pt))
   \<and> (fst (SetTimeouts os p t s) = Some ErrInvalidOrNilPort \<longleftrightarrow> invalid_port p)
   \<and> (invalid_port p \<longleftrightarrow> p = None \<or> fd (the p) = 0 \<or> fd (the p) = InvalidHandle)
   \<and> (invalid_port p \<longrightarrow> SetTimeouts os p t s = (Some ErrInvalidOrNilPort, s))
   \<and> (\<not> invalid_port p \<longrightarrow>
        SetTimeouts os p t s =
          setCommTimeouts os (fd (the p))
            (\<lparr>ReadIntervalTimeout = 1, ReadTotalTimeoutMultiplier = 0,
              ReadTotalTimeoutConstant = 100,
              WriteTotalTimeoutMultiplier = 0, WriteTotalTimeoutConstant = 100\<rparr>
               \<lparr>ReadIntervalTimeout := ucast (int64_div (ReadIntercharacter t) Millisecond),
                ReadTotalTimeoutConstant := ucast (int64_div (ReadTotal t) Millisecond),
                WriteTotalTimeoutConstant := ucast (int64_div (WriteTotal t) Millisecond)\<rparr>) s
        \<and> calls (snd (SetTimeouts os p t s)) =
            calls s @ [CallSetCommTimeouts (fd (the p)) (driver_params t)]
        \<and> world (snd (SetTimeouts os p t s)) =
            snd (sysSetCommTimeouts os (fd (the p)) (driver_params t) (world s)))"
proof -
  have n: "Port_SetTimeouts os None t s = (PanicNilDereference, s)"
    by (simp add: Port_SetTimeouts_def promoted_nil)
  have v: "Port_SetTimeouts os (Some pt) t s =
       (Returns (fst (SetTimeouts os (serialPort pt) t s)),
        snd (SetTimeouts os (serialPort pt) t s))"
    by (simp add: Port_SetTimeouts_def promoted_Some)
  have i: "fst (Port_SetTimeouts os (Some pt) t s) = Returns (Some ErrInvalidOrNilPort)
        \<longleftrightarrow> invalid_port (serialPort pt)"
    using SetTimeouts_receiver [of os "serialPort pt" t s] by (simp add: v)
  from n v i SetTimeouts_receiver [of os p t s] show ?thesis by blast
qed

theorem SetTimeouts_contract_witness:
  "Port_SetTimeouts sim_os (Some \<lparr>serialPort = None\<rparr>) DefaultTimeouts sim_start
     = (Returns (Some ErrInvalidOrNilPort), sim_start)
   \<and> Port_SetTimeouts sim_os (Some \<lparr>serialPort = Some \<lparr>fd = 0\<rparr>\<rparr>) DefaultTimeouts sim_start
     = (Returns (Some ErrInvalidOrNilPort), sim_start)
   \<and> \<not> invalid_port (Some \<lparr>fd = 5\<rparr>)
   \<and> fst (Port_SetTimeouts sim_os (Some \<lparr>serialPort = Some \<lparr>fd = 5\<rparr>\<rparr>) DefaultTimeouts sim_start)
     = Returns None
   \<and> calls (snd (Port_SetTimeouts sim_os (Some \<lparr>serialPort = Some \<lparr>fd = 5\<rparr>\<rparr>)
       DefaultTimeouts sim_start)) =
       [CallSetCommTimeouts 5 (driver_params DefaultTimeouts)]"
proof -
  have v: "\<not> invalid_port (Some \<lparr>fd = 5\<rparr>)" "invalid_port (Some \<lparr>fd = 0\<rparr>)" "invalid_port None"
    by (simp_all add: invalid_port_simps InvalidHandle_value)
  have r: "fst (setCommTimeouts sim_os 5 cto sim_start) = None" for cto
    by (simp add: setCommTimeouts_def sim_os_def sim_comm_def sim_start_def)
  have c0: "calls sim_start = []" by (simp add: sim_start_def)
  show ?thesis
    using SetTimeouts_contract [of sim_os DefaultTimeouts sim_start "\<lparr>serialPort = None\<rparr>" None]
      SetTimeouts_contract [of sim_os DefaultTimeouts sim_start
        "\<lparr>serialPort = Some \<lparr>fd = 0\<rparr>\<rparr>" "Some \<lparr>fd = 0\<rparr>"]
      SetTimeouts_contract [of sim_os DefaultTimeouts sim_start
        "\<lparr>serialPort = Some \<lparr>fd = 5\<rparr>\<rparr>" "Some \<lparr>fd = 5\<rparr>"] v
    by (simp add: r c0 setCommTimeouts_calls driver_params_def defaultWindowsCommTimeouts_def)
qed

text \<open>
  C5 as stated fails on the nil \<open>*Port\<close>, the value \<open>Open\<close> returns when it fails:
  \<open>SetTimeouts\<close> does not return the invalid-port error there, it panics.
\<close>

theorem SetTimeouts_nil_Port_counterexample:
  "Port_SetTimeouts sim_os None DefaultTimeouts sim_start = (PanicNilDereference, sim_start)
   \<and> fst (Port_SetTimeouts sim_os None DefaultTimeouts sim_start)
       \<noteq> Returns (Some ErrInvalidOrNilPort)"
  by (simp add: Port_SetTimeouts_def promoted_nil)

text \<open>
  Claim C6, as amended. \<open>Close\<close> on a \<open>Port\<close> whose embedded \<open>*serialPort\<close> is nil,
  or whose handle is zero or invalid, returns the invalid-port error, performs no call and
  does not crash. \<open>Close\<close> on a nil \<open>*Port\<close> performs no call either, but panics with a
  nil pointer dereference. \<open>Close\<close> on any other port calls \<open>CloseHandle\<close> once and
  returns its result. The port keeps no record of having been closed (its handle is not
  changed), so a second \<open>Close\<close> calls \<open>CloseHandle\<close> with the same handle again.
\<close>

theorem Close_contract:
  "Port_Close os None s = (PanicNilDereference, s)
   \<and> Port_Close os (Some pt) s =
       (Returns (fst (Close os (serialPort pt) s)), snd (Close os (serialPort pt) s))
   \<and> Port_Close os (Some \<lparr>serialPort = None\<rparr>) s = (Returns (Some ErrInvalidOrNilPort), s)
   \<and> (invalid_port p \<longrightarrow> Close os p s = (Some ErrInvalidOrNilPort, s))
   \<and> Close os None s = (Some ErrInvalidOrNilPort, s)
   \<and> (\<not> invalid_port p \<longrightarrow>
        Close os p s =
          (errno_error (fst (sysCloseHandle os (fd (the p)) (world s))),
           \<lparr>world = snd (sysCloseHandle os (fd (the p)) (world s)),
            calls = calls s @ [CallCloseHandle (fd (the p))]\<rparr>)
        \<and> calls (snd (Close os p (snd (Close os p s)))) =
            calls s @ [CallCloseHandle (fd (the p)), CallCloseHandle (fd (the p))])"
proof -
  have n: "Port_Close os None s = (PanicNilDereference, s)"
    by (simp add: Port_Close_def promoted_nil)
  have v: "Port_Close os (Some pt) s =
       (Returns (fst (Close os (serialPort pt) s)), snd (Close os (serialPort pt) s))" for pt
    by (simp add: Port_Close_def promoted_Some)
  have e: "Port_Close os (Some \<lparr>serialPort = None\<rparr>) s = (Returns (Some ErrInvalidOrNilPort), s)"
    by (simp add: v guarded_operations_reject(4) invalid_port_simps(1))
  have r: "(invalid_port p \<longrightarrow> Close os p s = (Some ErrInvalidOrNilPort, s))
   \<and> Close os None s = (Some ErrInvalidOrNilPort, s)
   \<and> (\<not> invalid_port p \<longrightarrow>
        Close os p s =
          (errno_error (fst (sysCloseHandle os (fd (the p)) (world s))),
           \<lparr>world = snd (sysCloseHandle os (fd (the p)) (world s)),
            calls = calls s @ [CallCloseHandle (fd (the p))]\<rparr>)
        \<and> calls (snd (Close os p (snd (Close os p s)))) =
            calls s @ [CallCloseHandle (fd (the p)), CallCloseHandle (fd (the p))])"
    by (simp add: Close_calls guarded_operations_reject(4) invalid_port_simps(1))
      (simp add: Close_valid)
  from n v e r show ?thesis by blast
qed

theorem Close_contract_witness:
  "Port_Close sim_os (Some \<lparr>serialPort = None\<rparr>) sim_start
     = (Returns (Some ErrInvalidOrNilPort), sim_start)
   \<and> Port_Close sim_os (Some \<lparr>serialPort = Some \<lparr>fd = 0\<rparr>\<rparr>) sim_start
     = (Returns (Some ErrInvalidOrNilPort), sim_start)
   \<and> fst (Port_Close sim_os (Some \<lparr>serialPort = Some \<lparr>fd = 5\<rparr>\<rparr>) sim_start) = Returns None
   \<and> calls (snd (Port_Close sim_os (Some \<lparr>serialPort = Some \<lparr>fd = 5\<rparr>\<rparr>) sim_start))
     = [CallCloseHandle 5]"
proof -
  have v: "\<not> invalid_port (Some \<lparr>fd = 5\<rparr>)" "invalid_port (Some \<lparr>fd = 0\<rparr>)"
    by (simp_all add: invalid_port_simps InvalidHandle_value)
  have w: "sysCloseHandle sim_os 5 (world sim_start) = (None, [7 \<mapsto> False])"
    by (auto simp add: sim_os_def sim_start_def)
  have c0: "calls sim_start = []" by (simp add: sim_start_def)
  show ?thesis
    using Close_contract [of sim_os sim_start "\<lparr>serialPort = Some \<lparr>fd = 5\<rparr>\<rparr>" "Some \<lparr>fd = 5\<rparr>"]
      Close_contract [of sim_os sim_start "\<lparr>serialPort = Some \<lparr>fd = 0\<rparr>\<rparr>" "Some \<lparr>fd = 0\<rparr>"] v
    by (simp add: w c0 errno_error_def)
qed

text \<open>
  C6 as stated fails on the nil \<open>*Port\<close>, where \<open>Close\<close> panics, and for the second
  \<open>Close\<close> of a port that was closed successfully: the call reaches the operating
  system again, and the error comes from there.
\<close>

theorem second_Close_counterexample:
  "Port_Close sim_os None sim_start = (PanicNilDereference, sim_start)
   \<and> fst (Close sim_os (Some \<lparr>fd = 5\<rparr>) sim_start) = None
   \<and> calls (snd (Close sim_os (Some \<lparr>fd = 5\<rparr>) sim_start)) = [CallCloseHandle 5]
   \<and> fst (Close sim_os (Some \<lparr>fd = 5\<rparr>) (snd (Close sim_os (Some \<lparr>fd = 5\<rparr>) sim_start)))
       = Some (SyscallErrno 6)
   \<and> calls (snd (Close sim_os (Some \<lparr>fd = 5\<rparr>)
       (snd (Close sim_os (Some \<lparr>fd = 5\<rparr>) sim_start))))
       = [CallCloseHandle 5, CallCloseHandle 5]
   \<and> calls (snd (Port_Close sim_os (Some \<lparr>serialPort = Some \<lparr>fd = 5\<rparr>\<rparr>)
       (snd (Port_Close sim_os (Some \<lparr>serialPort = Some \<lparr>fd = 5\<rparr>\<rparr>) sim_start))))
       = [CallCloseHandle 5, CallCloseHandle 5]"
proof -
  have v: "\<not> invalid_port (Some \<lparr>fd = 5\<rparr>)"
    by (simp add: invalid_port_simps InvalidHandle_value)
  have w: "sysCloseHandle sim_os 5 (world sim_start) = (None, [7 \<mapsto> False])"
    by (auto simp add: sim_os_def sim_start_def)
  have w2: "sysCloseHandle sim_os 5 [7 \<mapsto> False] = (Some 6, [7 \<mapsto> False])"
    by (simp add: sim_os_def)
  have c0: "calls sim_start = []" by (simp add: sim_start_def)
  show ?thesis
    using v by (simp add: Port_Close_def promoted_nil promoted_Some Close_valid w w2 c0 errno_error_def)
qed

text \<open>
  Claim C10. What \<open>ReadWithTimeouts\<close> and \<open>WriteWithTimeouts\<close> return is what the
  \<open>Read\<close> or \<open>Write\<close> after \<open>SetTimeouts\<close> returns, for every port, buffer and
  timeouts value; the error of \<open>SetTimeouts\<close> appears nowhere. In particular, when the
  port passes the guard and the \<open>SetCommTimeouts\<close> call fails with an \<open>Errno\<close>, so
  that \<open>SetTimeouts\<close> alone would return it, the read or write is still issued, in the
  world the failed call left, and its count and error are returned.
\<close>

theorem SetTimeouts_error_discarded:
  "fst (ReadWithTimeouts os p buf t s) = fst (Read os p buf (snd (SetTimeouts os p t s)))
   \<and> fst (WriteWithTimeouts os p buf t s) = fst (Write os p buf (snd (SetTimeouts os p t s)))
   \<and> (\<not> invalid_port p
        \<and> sysSetCommTimeouts os (fd (the p)) (driver_params t) (world s) = ((0, e), w) \<longrightarrow>
        fst (SetTimeouts os p t s) = Some (SyscallErrno e)
        \<and> ReadWithTimeouts os p buf t s =
            (case sysReadFile os (fd (the p)) buf w of
               ((buf', done, err), w') \<Rightarrow>
                 ((buf', uint done, errno_error err),
                  \<lparr>world = w',
                   calls = calls s @ [CallSetCommTimeouts (fd (the p)) (driver_params t),
                                      CallReadFile (fd (the p)) buf]\<rparr>))
        \<and> WriteWithTimeouts os p buf t s =
            (case sysWriteFile os (fd (the p)) buf w of
               ((n, err), w') \<Rightarrow>
                 ((uint n, errno_error err),
                  \<lparr>world = w',
                   calls = calls s @ [CallSetCommTimeouts (fd (the p)) (driver_params t),
                                      CallWriteFile (fd (the p)) buf]\<rparr>)))"
  by (simp add: ReadWithTimeouts_def WriteWithTimeouts_def case_prod_beta)
    (simp add: SetTimeouts_syscall_failed Read_valid Write_valid case_prod_beta)

theorem SetTimeouts_error_discarded_witness:
  "fst (SetTimeouts sim_os (Some \<lparr>fd = 7\<rparr>) DefaultTimeouts sim_start) = Some (SyscallErrno 1)
   \<and> fst (ReadWithTimeouts sim_os (Some \<lparr>fd = 7\<rparr>) [0, 0] DefaultTimeouts sim_start)
       = ([0, 0], 0, None)
   \<and> fst (WriteWithTimeouts sim_os (Some \<lparr>fd = 7\<rparr>) [1, 2] DefaultTimeouts sim_start)
       = (2, None)
   \<and> calls (snd (ReadWithTimeouts sim_os (Some \<lparr>fd = 7\<rparr>) [0, 0] DefaultTimeouts sim_start))
       = [CallSetCommTimeouts 7 (driver_params DefaultTimeouts), CallReadFile 7 [0, 0]]"
proof -
  have v: "\<not> invalid_port (Some \<lparr>fd = 7\<rparr>)"
    by (simp add: invalid_port_simps InvalidHandle_value)
  have f: "sysSetCommTimeouts sim_os 7 cto (world sim_start) = ((0, 1), world sim_start)" for cto
    by (simp add: sim_os_def sim_comm_def sim_start_def)
  have r: "sysReadFile sim_os 7 buf (world sim_start) = ((buf, 0, None), world sim_start)" for buf
    by (simp add: sim_os_def sim_start_def)
  have wr: "sysWriteFile sim_os 7 buf (world sim_start)
      = ((word_of_nat (length buf), None), world sim_start)" for buf
    by (simp add: sim_os_def sim_start_def)
  have c0: "calls sim_start = []" by (simp add: sim_start_def)
  show ?thesis
    using SetTimeouts_error_discarded
      [of sim_os "Some \<lparr>fd = 7\<rparr>" "[0, 0]" DefaultTimeouts sim_start 1 "world sim_start"]
      SetTimeouts_error_discarded
      [of sim_os "Some \<lparr>fd = 7\<rparr>" "[1, 2]" DefaultTimeouts sim_start 1 "world sim_start"]
      v
    by (simp add: f r wr c0 errno_error_def)
qed

end
